theory Spec2Isabelle
  imports Main
begin

section \<open>Fatal errors\<close>

text \<open>
  A thrown JavaScript exception is a value. \<open>TypeError\<close> is what reading a property of
  \<open>undefined\<close> (or destructuring \<open>undefined\<close>) throws; \<open>MalformedFieldSet\<close> is what
  \<open>parseFieldSet\<close> throws on text that is not a selection set.
\<close>

datatype fatal = TypeError | MalformedFieldSet

type_synonym 'a result = "fatal + 'a"

section \<open>The schema graph\<close>

text \<open>A selection node of a parsed field set: a field, a fragment spread or an inline fragment.\<close>

datatype selection =
    Field string "selection list option"
  | FragmentSpread string
  | InlineFragment "string option" "selection list"

text \<open>The value of a directive argument: only string values carry a field set.\<close>

datatype value_node = StringValue string | OtherValue

text \<open>A directive application; \<open>dir_arguments\<close> holds the value of each argument, in order.\<close>

record directive_node =
  dir_name :: string
  dir_arguments :: "value_node list option"

text \<open>
  A declaration node (type or field definition). \<open>ast_fields\<close> are the names of the field
  definitions of a type definition node; it is absent on a node built without a field list.
\<close>

record ast_node =
  ast_name :: string
  ast_directives :: "directive_node list option"
  ast_fields :: "string list option"

datatype type_ref = Named string | ListType type_ref | NonNull type_ref

text \<open>A service name slot of the metadata: \<open>serviceName?: string | null\<close>.\<close>

datatype js_string = JUndefined | JNull | JString string

record federation_field =
  ff_serviceName :: js_string
  ff_requires :: "selection list option"
  ff_provides :: "selection list option"

text \<open>
  An argument or input field. \<open>arg_default\<close> is the text \<open>print(astFromValue(defaultValue, type))\<close>
  when \<open>astFromValue\<close> yields a node.
\<close>

record garg =
  arg_name :: string
  arg_type :: type_ref
  arg_description :: "string option"
  arg_default :: "string option"

record gfield =
  fld_name :: string
  fld_type :: type_ref
  fld_args :: "garg list"
  fld_description :: "string option"
  fld_isDeprecated :: bool
  fld_deprecationReason :: "string option"
  fld_astNode :: "ast_node option"
  fld_federation :: "federation_field option"

record enum_value =
  ev_name :: string
  ev_description :: "string option"
  ev_isDeprecated :: bool
  ev_deprecationReason :: "string option"

text \<open>
  \<open>ft_keys\<close> and \<open>ft_externals\<close> are JavaScript objects keyed by service name, kept as the list
  \<open>Object.entries\<close> enumerates. An external is represented by its field definition node.
\<close>

record federation_type =
  ft_serviceName :: js_string
  ft_keys :: "(string \<times> selection list list option) list option"
  ft_externals :: "(string \<times> ast_node list) list option"

record fragment =
  frag_id :: string
  frag_text :: string

datatype kind = Scalar | Object | Interface | Union | Enum | InputObject

text \<open>
  A named type. Other types are referred to by name (\<open>ty_interfaces\<close>, \<open>ty_unionTypes\<close>, field
  types) and resolved through the type map. \<open>ty_fragments\<close> and \<open>ty_nextFragmentId\<close> are the two
  properties of \<open>FragmentSource\<close> that the serializer attaches to the type object; \<open>ty_fragments\<close>
  is a \<open>Map\<close> in insertion order.
\<close>

record gtype =
  ty_name :: string
  ty_kind :: kind
  ty_description :: "string option"
  ty_fields :: "gfield list"
  ty_inputFields :: "garg list"
  ty_interfaces :: "string list"
  ty_unionTypes :: "string list"
  ty_enumValues :: "enum_value list"
  ty_astNode :: "ast_node option"
  ty_extensionASTNodes :: "ast_node list option"
  ty_federation :: "federation_type option"
  ty_fragments :: "(string \<times> fragment) list option"
  ty_nextFragmentId :: "nat option"

record directive_def =
  dd_name :: string
  dd_description :: "string option"
  dd_args :: "garg list"
  dd_isRepeatable :: bool
  dd_locations :: "string list"

text \<open>
  The schema: \<open>typeMap\<close> lists the type objects in the order of \<open>schema.getTypeMap()\<close>, each under
  its own name; the root operation types are named.
\<close>

record schema =
  typeMap :: "gtype list"
  directives :: "directive_def list"
  queryType :: "string option"
  mutationType :: "string option"
  subscriptionType :: "string option"

record validation_error =
  err_code :: string
  err_service :: string
  err_typeName :: string
  err_fieldName :: string
  err_text :: string
  err_nodes :: "directive_node list"

fun getNamedType :: "type_ref \<Rightarrow> string" where
  "getNamedType (Named n) = n"
| "getNamedType (ListType t) = getNamedType t"
| "getNamedType (NonNull t) = getNamedType t"

definition lookupType :: "schema \<Rightarrow> string \<Rightarrow> gtype option" where
  "lookupType s n = find (\<lambda>t. ty_name t = n) (typeMap s)"

definition getField :: "gtype \<Rightarrow> string \<Rightarrow> gfield option" where
  "getField t n = find (\<lambda>f. fld_name f = n) (ty_fields t)"

section \<open>Loops that can throw\<close>

text \<open>\<open>Array.prototype.some\<close> with a callback that can throw: it stops at the first \<open>true\<close>.\<close>

fun someM :: "('a \<Rightarrow> bool result) \<Rightarrow> 'a list \<Rightarrow> bool result" where
  "someM f [] = Inr False"
| "someM f (x # xs) =
     (case f x of
        Inl e \<Rightarrow> Inl e
      | Inr b \<Rightarrow> if b then Inr True else someM f xs)"

text \<open>A \<open>for ... of\<close> loop whose body pushes errors and can throw.\<close>

fun forEachM :: "('a \<Rightarrow> 'b list result) \<Rightarrow> 'a list \<Rightarrow> 'b list result" where
  "forEachM f [] = Inr []"
| "forEachM f (x # xs) =
     (case f x of
        Inl e \<Rightarrow> Inl e
      | Inr ys \<Rightarrow> (case forEachM f xs of Inl e \<Rightarrow> Inl e | Inr zs \<Rightarrow> Inr (ys @ zs)))"

text \<open>\<open>if (c) continue;\<close> in a loop body whose remainder is \<open>k\<close>.\<close>

definition continueIf :: "bool result \<Rightarrow> 'b list result \<Rightarrow> 'b list result" where
  "continueIf c k = (case c of Inl e \<Rightarrow> Inl e | Inr b \<Rightarrow> if b then Inr [] else k)"

section \<open>Selection-set resolver and type-graph queries\<close>

text \<open>
  Modelled from the spec: \<open>findDirectivesOnNode\<close> (composition/utils, not among the sources).
  All directive applications of the given name on a declaration node, in source order; empty
  if the node has none or is absent.
\<close>

definition findDirectivesOnNode :: "ast_node option \<Rightarrow> string \<Rightarrow> directive_node list" where
  "findDirectivesOnNode node directiveName =
     (case node of
        None \<Rightarrow> []
      | Some n \<Rightarrow>
          (case ast_directives n of
             None \<Rightarrow> []
           | Some ds \<Rightarrow> filter (\<lambda>d. dir_name d = directiveName) ds))"

text \<open>\<open>selection.kind === Kind.FIELD && selection.name.value === fieldName\<close>\<close>

fun isFieldNamed :: "string \<Rightarrow> selection \<Rightarrow> bool" where
  "isFieldNamed fieldName (Field n sub) = (n = fieldName)"
| "isFieldNamed fieldName (FragmentSpread n) = False"
| "isFieldNamed fieldName (InlineFragment c sels) = False"

text \<open>
  Modelled from the spec: \<open>hasMatchingFieldInDirectives\<close> (composition/utils, not among the
  sources). True iff some directive of the list has a field-set argument whose top-level
  selections contain a selection named \<open>fieldNameToMatch\<close>; nested selections are not
  entered. The field set is the directive's first argument when it is a string, parsed by
  \<open>parseFieldSet\<close>, whose failure is fatal. \<open>parseFieldSet\<close> itself (the GraphQL parser) is the
  parameter \<open>P\<close>: \<open>None\<close> is its failure.
\<close>

definition hasMatchingFieldInDirectives ::
  "(string \<Rightarrow> selection list option) \<Rightarrow> directive_node list \<Rightarrow> string \<Rightarrow> gtype \<Rightarrow> bool result" where
  "hasMatchingFieldInDirectives P ds fieldNameToMatch namedType =
     someM (\<lambda>d.
       (case dir_arguments d of
          Some (StringValue s # rest) \<Rightarrow>
            (case P s of
               None \<Rightarrow> Inl MalformedFieldSet
             | Some selections \<Rightarrow> Inr (list_ex (isFieldNamed fieldNameToMatch) selections))
        | _ \<Rightarrow> Inr False)) ds"

text \<open>
  Modelled from the spec: \<open>findFieldsThatReturnType\<close> (composition/utils, not among the
  sources). Scans the fields of every Object and Interface type, in type-map order and then
  field order; a field qualifies if its return type, stripped of List and NonNull, is
  \<open>typeToFind\<close> by name.
\<close>

definition findFieldsThatReturnType :: "schema \<Rightarrow> gtype \<Rightarrow> gfield list" where
  "findFieldsThatReturnType s typeToFind =
     concat (map (\<lambda>t.
       if ty_kind t = Object \<or> ty_kind t = Interface
       then filter (\<lambda>f. getNamedType (fld_type f) = ty_name typeToFind) (ty_fields t)
       else []) (typeMap s))"

text \<open>
  Modelled from the spec: \<open>selectionIncludesField\<close> (composition/utils, not among the
  sources). For each selection in turn: a selection named \<open>fieldToFind\<close> that is made on
  \<open>typeToFind\<close> succeeds. Otherwise the selected field is resolved on \<open>selectionSetType\<close> and, if
  the selection carries a nested selection set, the search recurses with the nested selections
  and the field's unwrapped return type (looked up by name) as the new \<open>selectionSetType\<close>.
  False if no path reaches the target.

  The sentence of section 4.1 asks that the selected field's return type be \<open>typeToFind\<close>; with
  that reading \<open>roles { canWrite }\<close> would not reach \<open>AccountRoles.canWrite\<close>. Condition 3 of the
  rule (a selection on this entity type naming this external field), Scenario C and P1 of
  the specification, and the comment of the validator (find the external field's parent
  type, then the external field's name) all need the type on which the selection is made,
  which is what this definition compares.
\<close>

fun selectionIncludesField ::
  "schema \<Rightarrow> selection list \<Rightarrow> gtype \<Rightarrow> gtype \<Rightarrow> string \<Rightarrow> bool" where
  "selectionIncludesField s [] selectionSetType typeToFind fieldToFind = False"
| "selectionIncludesField s (Field n None # rest) selectionSetType typeToFind fieldToFind =
     (if n = fieldToFind \<and> ty_name selectionSetType = ty_name typeToFind then True
      else selectionIncludesField s rest selectionSetType typeToFind fieldToFind)"
| "selectionIncludesField s (Field n (Some sub) # rest) selectionSetType typeToFind fieldToFind =
     (if n = fieldToFind \<and> ty_name selectionSetType = ty_name typeToFind then True
      else
        (case getField selectionSetType n of
           None \<Rightarrow> selectionIncludesField s rest selectionSetType typeToFind fieldToFind
         | Some f \<Rightarrow>
             (case lookupType s (getNamedType (fld_type f)) of
                None \<Rightarrow> selectionIncludesField s rest selectionSetType typeToFind fieldToFind
              | Some returnType \<Rightarrow>
                  if selectionIncludesField s sub returnType typeToFind fieldToFind then True
                  else selectionIncludesField s rest selectionSetType typeToFind fieldToFind)))"
| "selectionIncludesField s (FragmentSpread n # rest) selectionSetType typeToFind fieldToFind =
     selectionIncludesField s rest selectionSetType typeToFind fieldToFind"
| "selectionIncludesField s (InlineFragment c sels # rest) selectionSetType typeToFind fieldToFind =
     selectionIncludesField s rest selectionSetType typeToFind fieldToFind"

section \<open>The validator \<open>externalUnused\<close>\<close>

text \<open>
  Modelled from the spec: \<open>getFederationMetadata\<close> (composition/utils, not among the sources)
  reads the optional federation metadata of a type or field: \<open>ty_federation\<close>, \<open>fld_federation\<close>.
\<close>

text \<open>
  The names that every plain object inherits from \<open>Object.prototype\<close>; each of them is a
  function or an object, hence truthy.
\<close>

definition objectPrototypeNames :: "string list" where
  "objectPrototypeNames =
     [''constructor'', ''hasOwnProperty'', ''isPrototypeOf'', ''propertyIsEnumerable'',
      ''toLocaleString'', ''toString'', ''valueOf'', ''__defineGetter__'', ''__defineSetter__'',
      ''__lookupGetter__'', ''__lookupSetter__'', ''__proto__'']"

text \<open>
  Truthiness of \<open>keys[serviceName]\<close> on the plain object \<open>keys\<close>: an own entry is an array
  (truthy, even when empty) or \<open>undefined\<close>; a name without an own entry is looked up on the
  prototype.
\<close>

definition keysHas :: "(string \<times> selection list list option) list \<Rightarrow> string \<Rightarrow> bool" where
  "keysHas ks serviceName =
     (case map_of ks serviceName of
        Some (Some v) \<Rightarrow> True
      | Some None \<Rightarrow> False
      | None \<Rightarrow> serviceName \<in> set objectPrototypeNames)"

text \<open>
  \<open>serviceName && keys && !keys[serviceName]\<close>: the owner is a non-empty string, the keys
  object exists and \<open>keys[serviceName]\<close> is falsy.
\<close>

definition ownerHasNoKey :: "federation_type \<Rightarrow> bool" where
  "ownerHasNoKey m =
     (case ft_serviceName m of
        JString serviceName \<Rightarrow>
          serviceName \<noteq> [] \<and>
          (case ft_keys m of None \<Rightarrow> False | Some ks \<Rightarrow> \<not> keysHas ks serviceName)
      | _ \<Rightarrow> False)"

definition hasMatchingKeyOnType ::
  "(string \<Rightarrow> selection list option) \<Rightarrow> gtype \<Rightarrow> string \<Rightarrow> bool result" where
  "hasMatchingKeyOnType P parentType externalFieldName =
     hasMatchingFieldInDirectives P
       (findDirectivesOnNode (ty_astNode parentType) ''key'') externalFieldName parentType"

definition hasMatchingProvidesOnAnotherType ::
  "(string \<Rightarrow> selection list option) \<Rightarrow> schema \<Rightarrow> gtype \<Rightarrow> string \<Rightarrow> bool result" where
  "hasMatchingProvidesOnAnotherType P s parentType externalFieldName =
     someM (\<lambda>field.
       someM (\<lambda>directive.
         (case dir_arguments directive of
            None \<Rightarrow> Inr False
          | Some [] \<Rightarrow> Inl TypeError
          | Some (OtherValue # rest) \<Rightarrow> Inr False
          | Some (StringValue v # rest) \<Rightarrow>
              (case P v of
                 None \<Rightarrow> Inl MalformedFieldSet
               | Some selections \<Rightarrow> Inr (list_ex (isFieldNamed externalFieldName) selections))))
         (findDirectivesOnNode (fld_astNode field) ''provides''))
       (findFieldsThatReturnType s parentType)"

definition hasMatchingRequiresOnAnotherType ::
  "(string \<Rightarrow> selection list option) \<Rightarrow> schema \<Rightarrow> gtype \<Rightarrow> string \<Rightarrow> bool result" where
  "hasMatchingRequiresOnAnotherType P s parentType externalFieldName =
     someM (\<lambda>namedType.
       if ty_kind namedType \<noteq> Object then Inr False
       else
         someM (\<lambda>field.
           someM (\<lambda>directive.
             (case dir_arguments directive of
                None \<Rightarrow> Inr False
              | Some [] \<Rightarrow> Inl TypeError
              | Some (OtherValue # rest) \<Rightarrow> Inr False
              | Some (StringValue v # rest) \<Rightarrow>
                  (case P v of
                     None \<Rightarrow> Inl MalformedFieldSet
                   | Some selections \<Rightarrow>
                       Inr (selectionIncludesField s selections namedType parentType
                              externalFieldName))))
             (findDirectivesOnNode (fld_astNode field) ''requires''))
           (ty_fields namedType))
       (typeMap s)"

definition hasMatchingRequiresOnType ::
  "(string \<Rightarrow> selection list option) \<Rightarrow> gtype \<Rightarrow> string \<Rightarrow> string \<Rightarrow> bool result" where
  "hasMatchingRequiresOnType P parentType serviceName externalFieldName =
     someM (\<lambda>maybeRequiresField.
       if (case fld_federation maybeRequiresField of
             None \<Rightarrow> JUndefined
           | Some m \<Rightarrow> ff_serviceName m) \<noteq> JString serviceName
       then Inr False
       else hasMatchingFieldInDirectives P
              (findDirectivesOnNode (fld_astNode maybeRequiresField) ''requires'')
              externalFieldName parentType)
       (ty_fields parentType)"

text \<open>\<open>parentType.getInterfaces()\<close>: the implemented interfaces, resolved by name.\<close>

definition getInterfaces :: "schema \<Rightarrow> gtype \<Rightarrow> gtype list" where
  "getInterfaces s t = List.map_filter (lookupType s) (ty_interfaces t)"

definition fieldsOnInterfacesImplementedByParentType :: "schema \<Rightarrow> gtype \<Rightarrow> string list" where
  "fieldsOnInterfacesImplementedByParentType s parentType =
     concat (map (\<lambda>i. map fld_name (ty_fields i)) (getInterfaces s parentType))"

text \<open>
  \<open>errorWithCode\<close> and \<open>logServiceAndType\<close> are not among the sources: the error keeps the code,
  the three arguments of \<open>logServiceAndType\<close>, the literal text appended to its result, and
  the nodes.
\<close>

definition unusedError :: "string \<Rightarrow> string \<Rightarrow> ast_node \<Rightarrow> validation_error" where
  "unusedError serviceName parentTypeName externalField =
     \<lparr> err_code = ''EXTERNAL_UNUSED'',
       err_service = serviceName,
       err_typeName = parentTypeName,
       err_fieldName = ast_name externalField,
       err_text = ''is marked as @external but is not used by a @requires, @key, or @provides directive.'',
       err_nodes = findDirectivesOnNode (Some externalField) ''external'' \<rparr>"

text \<open>The body of the innermost loop, for one external field of one service.\<close>

definition checkExternalField ::
  "(string \<Rightarrow> selection list option) \<Rightarrow> schema \<Rightarrow> gtype \<Rightarrow> string \<Rightarrow> ast_node
     \<Rightarrow> validation_error list result" where
  "checkExternalField P s parentType serviceName externalField =
     continueIf (hasMatchingKeyOnType P parentType (ast_name externalField))
    (continueIf (hasMatchingProvidesOnAnotherType P s parentType (ast_name externalField))
    (continueIf (hasMatchingRequiresOnAnotherType P s parentType (ast_name externalField))
    (continueIf (hasMatchingRequiresOnType P parentType serviceName (ast_name externalField))
    (if ast_name externalField \<in> set (fieldsOnInterfacesImplementedByParentType s parentType)
     then Inr []
     else Inr [unusedError serviceName (ty_name parentType) externalField]))))"

text \<open>The body of the outer loop, for one entry of the type map.\<close>

definition checkType ::
  "(string \<Rightarrow> selection list option) \<Rightarrow> schema \<Rightarrow> gtype \<Rightarrow> validation_error list result" where
  "checkType P s parentType =
     (if ty_kind parentType \<noteq> Object then Inr []
      else
        (case ty_federation parentType of
           None \<Rightarrow> Inr []
         | Some typeFederationMetadata \<Rightarrow>
             if ownerHasNoKey typeFederationMetadata then Inr []
             else
               (case ft_externals typeFederationMetadata of
                  None \<Rightarrow> Inr []
                | Some externals \<Rightarrow>
                    forEachM (\<lambda>(serviceName, externalFieldsForService).
                      forEachM (checkExternalField P s parentType serviceName)
                        externalFieldsForService) externals)))"

definition externalUnused ::
  "(string \<Rightarrow> selection list option) \<Rightarrow> schema \<Rightarrow> validation_error list result" where
  "externalUnused P s = forEachM (checkType P s) (typeMap s)"

section \<open>JavaScript strings\<close>

abbreviation NL :: string where "NL \<equiv> [CHR 0x0A]"

abbreviation DQ :: string where "DQ \<equiv> [CHR 0x22]"

abbreviation BSL :: string where "BSL \<equiv> [CHR 0x5C]"

text \<open>\<open>Array.prototype.join\<close>\<close>

fun joinWith :: "string \<Rightarrow> string list \<Rightarrow> string" where
  "joinWith sep [] = []"
| "joinWith sep [x] = x"
| "joinWith sep (x # y # ys) = x @ sep @ joinWith sep (y # ys)"

text \<open>A number in a template literal: decimal digits.\<close>

fun showNat :: "nat \<Rightarrow> string" where
  "showNat n = (if n < 10 then [''0123456789'' ! n] else showNat (n div 10) @ [''0123456789'' ! (n mod 10)])"

declare showNat.simps [simp del]

text \<open>A service name in a template literal.\<close>

fun showName :: "js_string \<Rightarrow> string" where
  "showName JUndefined = ''undefined''"
| "showName JNull = ''null''"
| "showName (JString s) = s"

text \<open>Truthiness of a service name: a non-empty string.\<close>

fun truthy :: "js_string \<Rightarrow> bool" where
  "truthy (JString s) = (s \<noteq> [])"
| "truthy JUndefined = False"
| "truthy JNull = False"

text \<open>The class \<open>\s\<close> and the characters \<open>trim\<close> strips, among 8-bit characters.\<close>

definition isSpace :: "char \<Rightarrow> bool" where
  "isSpace c = (c \<in> set [CHR 0x20, CHR 0x09, CHR 0x0A, CHR 0x0B, CHR 0x0C, CHR 0x0D, CHR 0xA0])"

definition trim :: "string \<Rightarrow> string" where
  "trim s = rev (dropWhile isSpace (rev (dropWhile isSpace s)))"

text \<open>\<open>replace(/X+/g, r)\<close> for a character class \<open>X\<close>: every maximal run becomes \<open>r\<close>.\<close>

primrec replaceRuns :: "(char \<Rightarrow> bool) \<Rightarrow> string \<Rightarrow> bool \<Rightarrow> string \<Rightarrow> string" where
  "replaceRuns p r inRun [] = []"
| "replaceRuns p r inRun (c # cs) =
     (if p c then (if inRun then replaceRuns p r True cs else r @ replaceRuns p r True cs)
      else c # replaceRuns p r False cs)"

text \<open>\<open>replace(/\n/g, r)\<close>\<close>

definition replaceNewlines :: "string \<Rightarrow> string \<Rightarrow> string" where
  "replaceNewlines r s = concat (map (\<lambda>c. if c = CHR 0x0A then r else [c]) s)"

text \<open>\<open>replace(/"""/g, '\\"""')\<close>\<close>

fun escapeTripleQuotes :: "string \<Rightarrow> string" where
  "escapeTripleQuotes (a # b # c # rest) =
     (if a = CHR 0x22 \<and> b = CHR 0x22 \<and> c = CHR 0x22
      then BSL @ DQ @ DQ @ DQ @ escapeTripleQuotes rest
      else a # escapeTripleQuotes (b # c # rest))"
| "escapeTripleQuotes s = s"

text \<open>\<open>split('\n')\<close>\<close>

fun splitLines :: "string \<Rightarrow> string list" where
  "splitLines [] = [[]]"
| "splitLines (c # cs) =
     (if c = CHR 0x0A then [] # splitLines cs
      else (case splitLines cs of [] \<Rightarrow> [[c]] | l # ls \<Rightarrow> (c # l) # ls))"

definition isIdentChar :: "char \<Rightarrow> bool" where
  "isIdentChar c =
     (c \<in> set ''ABCDEFGHIJKLMNOPQRSTUVWXYZabcdefghijklmnopqrstuvwxyz_0123456789'')"

text \<open>\<open>JSON.stringify\<close> of a string of 8-bit characters.\<close>

definition jsonEscape :: "char \<Rightarrow> string" where
  "jsonEscape c =
     (if c = CHR 0x22 then BSL @ DQ
      else if c = CHR 0x5C then BSL @ BSL
      else if c = CHR 0x08 then BSL @ ''b''
      else if c = CHR 0x0C then BSL @ ''f''
      else if c = CHR 0x0A then BSL @ ''n''
      else if c = CHR 0x0D then BSL @ ''r''
      else if c = CHR 0x09 then BSL @ ''t''
      else if (of_char c :: nat) < 32
      then BSL @ ''u00'' @ [''0123456789abcdef'' ! (of_char c div 16),
                            ''0123456789abcdef'' ! (of_char c mod 16)]
      else [c])"

definition jsonStringify :: "string \<Rightarrow> string" where
  "jsonStringify s = DQ @ concat (map jsonEscape s) @ DQ"

section \<open>The serializer \<open>printComposedSdl\<close>\<close>

record options =
  commentDescriptions :: "bool option"

text \<open>
  What the serializer takes from outside this file: \<open>printNode\<close> is \<open>print\<close> of graphql-js on a
  selection node, \<open>localeCompare\<close> is \<open>String.prototype.localeCompare\<close>, the five predicates are
  those of graphql-js and of the federation modules \<open>types\<close> and \<open>composition/utils\<close>, and
  \<open>csdlDefinitions\<close> is the default export of the module \<open>csdlDefinitions\<close> (one string, or a
  list of strings that \<open>concat\<close> spreads).
\<close>

record printer_env =
  printNode :: "selection \<Rightarrow> string"
  localeCompare :: "string \<Rightarrow> string \<Rightarrow> int"
  isSpecifiedDirective :: "directive_def \<Rightarrow> bool"
  isFederationDirective :: "directive_def \<Rightarrow> bool"
  isSpecifiedScalarType :: "gtype \<Rightarrow> bool"
  isIntrospectionType :: "gtype \<Rightarrow> bool"
  isFederationType :: "gtype \<Rightarrow> bool"
  csdlDefinitions :: "string list"

record service_definition =
  svc_name :: string
  svc_url :: string

definition isDefinedType :: "printer_env \<Rightarrow> gtype \<Rightarrow> bool" where
  "isDefinedType E type =
     (\<not> isSpecifiedScalarType E type \<and> \<not> isIntrospectionType E type \<and> \<not> isFederationType E type)"

definition printSchemaDefinition :: "schema \<Rightarrow> string" where
  "printSchemaDefinition s =
     ''schema @using(spec: '' @ DQ @ ''https://specs.apollo.dev/cs/v0.1'' @ DQ @ '')'' @
     NL @ ''{'' @ NL @
     joinWith NL
       ((case queryType s of None \<Rightarrow> [] | Some n \<Rightarrow> [''  query: '' @ n]) @
        (case mutationType s of None \<Rightarrow> [] | Some n \<Rightarrow> [''  mutation: '' @ n]) @
        (case subscriptionType s of None \<Rightarrow> [] | Some n \<Rightarrow> [''  subscription: '' @ n])) @
     NL @ ''}''"

text \<open>The array of the template literal is converted with \<open>toString\<close>: joined by commas.\<close>

definition printGraphs :: "service_definition list \<Rightarrow> string" where
  "printGraphs serviceList =
     ''enum cs__Graph {'' @
     joinWith '','' (map (\<lambda>service.
       NL @ ''  '' @ svc_name service @ '' @cs__link(to: { http: { url: '' @
       jsonStringify (svc_url service) @ '' } })'') serviceList) @
     NL @ ''}''"

fun showType :: "type_ref \<Rightarrow> string" where
  "showType (Named n) = n"
| "showType (ListType t) = ''['' @ showType t @ '']''"
| "showType (NonNull t) = showType t @ ''!''"

definition printBlockString :: "string \<Rightarrow> string \<Rightarrow> bool \<Rightarrow> string" where
  "printBlockString v indentation preferMultipleLines =
     (let isSingleLine = (CHR 0x0A \<notin> set v);
          hasLeadingSpace = (v \<noteq> [] \<and> (hd v = CHR 0x20 \<or> hd v = CHR 0x09));
          hasTrailingQuote = (v \<noteq> [] \<and> last v = CHR 0x22);
          hasTrailingSlash = (v \<noteq> [] \<and> last v = CHR 0x5C);
          printAsMultipleLines =
            (\<not> isSingleLine \<or> hasTrailingQuote \<or> hasTrailingSlash \<or> preferMultipleLines);
          result =
            (if printAsMultipleLines \<and> \<not> (isSingleLine \<and> hasLeadingSpace)
             then NL @ indentation else []) @
            (if indentation \<noteq> [] then replaceNewlines (NL @ indentation) v else v) @
            (if printAsMultipleLines then NL else [])
      in DQ @ DQ @ DQ @ escapeTripleQuotes result @ DQ @ DQ @ DQ)"

definition printDescriptionWithComments :: "string \<Rightarrow> string \<Rightarrow> bool \<Rightarrow> string" where
  "printDescriptionWithComments description indentation firstInBlock =
     (if indentation \<noteq> [] \<and> \<not> firstInBlock then NL else []) @
     joinWith NL (map (\<lambda>line. indentation @ (if line \<noteq> [] then ''# '' @ line else ''#''))
                    (splitLines description)) @
     NL"

definition printDescription ::
  "options option \<Rightarrow> string option \<Rightarrow> string \<Rightarrow> bool \<Rightarrow> string" where
  "printDescription opts description indentation firstInBlock =
     (case description of
        None \<Rightarrow> []
      | Some d \<Rightarrow>
          if (case opts of None \<Rightarrow> False | Some ops \<Rightarrow> commentDescriptions ops = Some True)
          then printDescriptionWithComments d indentation firstInBlock
          else
            (if indentation \<noteq> [] \<and> \<not> firstInBlock then NL @ indentation else indentation) @
            replaceNewlines (NL @ indentation) (printBlockString d [] (length d > 70)) @
            NL)"

definition printInputValue :: "garg \<Rightarrow> string" where
  "printInputValue arg =
     arg_name arg @ '': '' @ showType (arg_type arg) @
     (case arg_default arg of None \<Rightarrow> [] | Some d \<Rightarrow> '' = '' @ d)"

definition printArgs :: "options option \<Rightarrow> garg list \<Rightarrow> string \<Rightarrow> string" where
  "printArgs opts args indentation =
     (if args = [] then []
      else if list_all (\<lambda>arg. arg_description arg = None \<or> arg_description arg = Some []) args
      then ''('' @ joinWith '', '' (map printInputValue args) @ '')''
      else
        ''('' @ NL @
        joinWith NL (map (\<lambda>(i, arg).
          printDescription opts (arg_description arg) (''  '' @ indentation) (i = 0) @
          ''  '' @ indentation @ printInputValue arg) (enumerate 0 args)) @
        NL @ indentation @ '')'')"

text \<open>
  \<open>print(astFromValue(reason, GraphQLString))\<close> of a string is the string quoted as by
  \<open>JSON.stringify\<close>; \<open>DEFAULT_DEPRECATION_REASON\<close> is \<open>No longer supported\<close>.
\<close>

definition printDeprecated :: "bool \<Rightarrow> string option \<Rightarrow> string" where
  "printDeprecated isDeprecated reason =
     (if \<not> isDeprecated then []
      else
        (case reason of
           None \<Rightarrow> '' @deprecated''
         | Some r \<Rightarrow>
             if r \<noteq> ''No longer supported''
             then '' @deprecated(reason: '' @ jsonStringify r @ '')''
             else '' @deprecated''))"

definition printDirective :: "options option \<Rightarrow> directive_def \<Rightarrow> string" where
  "printDirective opts directive =
     printDescription opts (dd_description directive) [] True @
     ''directive @'' @ dd_name directive @
     printArgs opts (dd_args directive) [] @
     (if dd_isRepeatable directive then '' repeatable'' else []) @
     '' on '' @ joinWith '' | '' (dd_locations directive)"

definition printBlock :: "string list \<Rightarrow> bool \<Rightarrow> string" where
  "printBlock items onNewLine =
     (if items \<noteq> []
      then (if onNewLine then NL @ ''{'' @ NL @ joinWith NL items @ NL @ ''}''
            else '' {'' @ NL @ joinWith NL items @ NL @ ''}'')
      else [])"

definition printScalar :: "options option \<Rightarrow> gtype \<Rightarrow> string" where
  "printScalar opts type =
     printDescription opts (ty_description type) [] True @ ''scalar '' @ ty_name type"

definition printUnion :: "options option \<Rightarrow> gtype \<Rightarrow> string" where
  "printUnion opts type =
     printDescription opts (ty_description type) [] True @ ''union '' @ ty_name type @
     (if ty_unionTypes type \<noteq> [] then '' = '' @ joinWith '' | '' (ty_unionTypes type) else [])"

definition printEnum :: "options option \<Rightarrow> gtype \<Rightarrow> string" where
  "printEnum opts type =
     printDescription opts (ty_description type) [] True @ ''enum '' @ ty_name type @
     printBlock (map (\<lambda>(i, v).
       printDescription opts (ev_description v) ''  '' (i = 0) @ ''  '' @ ev_name v @
       printDeprecated (ev_isDeprecated v) (ev_deprecationReason v))
       (enumerate 0 (ty_enumValues type))) False"

definition printInputObject :: "options option \<Rightarrow> gtype \<Rightarrow> string" where
  "printInputObject opts type =
     printDescription opts (ty_description type) [] True @ ''input '' @ ty_name type @
     printBlock (map (\<lambda>(i, f).
       printDescription opts (arg_description f) ''  '' (i = 0) @ ''  '' @ printInputValue f)
       (enumerate 0 (ty_inputFields type))) False"

definition printWithReducedWhitespace :: "printer_env \<Rightarrow> selection \<Rightarrow> string" where
  "printWithReducedWhitespace E ast = trim (replaceRuns isSpace '' '' False (printNode E ast))"

definition printFieldSet :: "printer_env \<Rightarrow> selection list \<Rightarrow> string" where
  "printFieldSet E selections =
     ''{ '' @ joinWith '' '' (map (printWithReducedWhitespace E) selections) @ '' }''"

definition asValidIdentifier :: "string \<Rightarrow> string" where
  "asValidIdentifier input =
     filter isIdentChar
       (replaceRuns (\<lambda>c. c = CHR ''_'') ''_'' False
         (replaceRuns (\<lambda>c. isSpace c \<or> c = CHR '','' \<or> c = CHR ''{'' \<or> c = CHR ''}'') ''_'' False
           (trim input)))"

text \<open>\<open>Map.prototype.set\<close>: an existing key keeps its place, a new one goes last.\<close>

definition mapSet :: "(string \<times> 'v) list \<Rightarrow> string \<Rightarrow> 'v \<Rightarrow> (string \<times> 'v) list" where
  "mapSet m k v =
     (if k \<in> fst ` set m then map (\<lambda>(k', v'). if k' = k then (k', v) else (k', v')) m
      else m @ [(k, v)])"

text \<open>
  \<open>findOrCreateFragment\<close> returns the fragment name and the type object as it leaves it: both
  \<open>??=\<close> assignments happen before the lookup.
\<close>

definition findOrCreateFragment :: "printer_env \<Rightarrow> gtype \<Rightarrow> selection list \<Rightarrow> string \<times> gtype" where
  "findOrCreateFragment E type selections =
     (let fragments = (case ty_fragments type of None \<Rightarrow> [] | Some m \<Rightarrow> m);
          nextFragmentId = (case ty_nextFragmentId type of None \<Rightarrow> 0 | Some n \<Rightarrow> n);
          key = printFieldSet E selections
      in (case map_of fragments key of
            Some existing \<Rightarrow>
              (frag_id existing,
               type\<lparr>ty_fragments := Some fragments, ty_nextFragmentId := Some nextFragmentId\<rparr>)
          | None \<Rightarrow>
              (let ident = ''cs__fragmentOn_'' @
                     asValidIdentifier (ty_name type @ ''_'' @ key @ ''_'' @ showNat nextFragmentId)
               in (ident,
                   type\<lparr>ty_fragments :=
                          Some (mapSet fragments ident
                            \<lparr>frag_id = ident,
                             frag_text = ''fragment '' @ ident @ '' on '' @ ty_name type @ '' '' @
                                         printFieldSet E selections\<rparr>),
                        ty_nextFragmentId := Some (Suc nextFragmentId)\<rparr>))))"

text \<open>
  Destructuring \<open>type.extensions?.federation\<close> when it is \<open>undefined\<close> throws a TypeError.
\<close>

definition printFederationFieldDirectives ::
  "printer_env \<Rightarrow> gtype \<Rightarrow> gfield \<Rightarrow> string result \<times> gtype" where
  "printFederationFieldDirectives E type field =
     (case fld_federation field of
        None \<Rightarrow>
          (case ty_federation type of
             None \<Rightarrow> (Inl TypeError, type)
           | Some m \<Rightarrow> (Inr ('' @cs__resolve(graph: '' @ showName (ft_serviceName m) @ '')''), type))
      | Some m \<Rightarrow>
          (let requires = (case ff_requires m of None \<Rightarrow> [] | Some r \<Rightarrow> r);
               provides = (case ff_provides m of None \<Rightarrow> [] | Some r \<Rightarrow> r);
               (requiresText, type1) =
                 (if requires \<noteq> []
                  then (case findOrCreateFragment E type requires of
                          (ident, t) \<Rightarrow> ('', requires: '' @ DQ @ ident @ DQ, t))
                  else ([], type));
               (providesText, type2) =
                 (if provides \<noteq> []
                  then (case findOrCreateFragment E type1 provides of
                          (ident, t) \<Rightarrow> ('', provides: '' @ DQ @ ident @ DQ, t))
                  else ([], type1))
           in (Inr ('' @cs__resolve(graph: '' @ showName (ff_serviceName m) @
                    requiresText @ providesText @ '')''), type2)))"

text \<open>The \<open>map\<close> of \<open>printFields\<close> over the indexed fields, threading the type object.\<close>

fun printFieldLines ::
  "printer_env \<Rightarrow> options option \<Rightarrow> gtype \<Rightarrow> (nat \<times> gfield) list \<Rightarrow> string list result \<times> gtype" where
  "printFieldLines E opts type [] = (Inr [], type)"
| "printFieldLines E opts type ((i, f) # rest) =
     (case printFederationFieldDirectives E type f of
        (Inl e, type1) \<Rightarrow> (Inl e, type1)
      | (Inr directiveText, type1) \<Rightarrow>
          (case printFieldLines E opts type1 rest of
             (Inl e, type2) \<Rightarrow> (Inl e, type2)
           | (Inr ls, type2) \<Rightarrow>
               (Inr ((printDescription opts (fld_description f) ''  '' (i = 0) @
                      ''  '' @ fld_name f @
                      printArgs opts (fld_args f) ''  '' @
                      '': '' @ showType (fld_type f) @
                      printDeprecated (fld_isDeprecated f) (fld_deprecationReason f) @
                      directiveText) # ls), type2)))"

definition printFields :: "printer_env \<Rightarrow> options option \<Rightarrow> gtype \<Rightarrow> string result \<times> gtype" where
  "printFields E opts type =
     (case printFieldLines E opts type (enumerate 0 (ty_fields type)) of
        (Inl e, type1) \<Rightarrow> (Inl e, type1)
      | (Inr fieldLines, type1) \<Rightarrow>
          (Inr (printBlock fieldLines
                  (case ty_federation type1 of None \<Rightarrow> False | Some m \<Rightarrow> ft_keys m \<noteq> None)),
           type1))"

text \<open>The fragments of one service's keys; \<open>nextKeyId\<close> is the module-level counter.\<close>

fun printKeysOfService ::
  "printer_env \<Rightarrow> string \<Rightarrow> string \<Rightarrow> selection list list \<Rightarrow> nat \<Rightarrow> string \<times> nat" where
  "printKeysOfService E typeName service [] nextKeyId = ([], nextKeyId)"
| "printKeysOfService E typeName service (selections # rest) nextKeyId =
     (case printKeysOfService E typeName service rest (Suc nextKeyId) of
        (text, k) \<Rightarrow>
          (NL @ ''fragment cs__keyFor_'' @ typeName @ ''_'' @ showNat nextKeyId @
           '' on '' @ typeName @ '' @cs__key(graph: '' @ service @ '') '' @
           printFieldSet E selections @ text, k))"

fun printKeyEntries ::
  "printer_env \<Rightarrow> string \<Rightarrow> (string \<times> selection list list option) list \<Rightarrow> nat \<Rightarrow> string \<times> nat" where
  "printKeyEntries E typeName [] nextKeyId = ([], nextKeyId)"
| "printKeyEntries E typeName ((service, ks) # rest) nextKeyId =
     (case (case ks of None \<Rightarrow> ([], nextKeyId)
                     | Some l \<Rightarrow> printKeysOfService E typeName service l nextKeyId) of
        (text, k) \<Rightarrow>
          (case printKeyEntries E typeName rest k of (text', k') \<Rightarrow> (text @ text', k')))"

definition printKeys :: "printer_env \<Rightarrow> gtype \<Rightarrow> nat \<Rightarrow> string \<times> nat" where
  "printKeys E type nextKeyId =
     (case ty_federation type of
        None \<Rightarrow> ([], nextKeyId)
      | Some metadata \<Rightarrow>
          (case ft_keys metadata of
             None \<Rightarrow> ([], nextKeyId)
           | Some ks \<Rightarrow>
               if \<not> truthy (ft_serviceName metadata) then ([], nextKeyId)
               else (case printKeyEntries E (ty_name type) ks nextKeyId of
                       (text, k) \<Rightarrow> (text @ NL, k))))"

text \<open>\<open>join()\<close> without an argument separates by commas.\<close>

definition printFragmentsForType :: "gtype \<Rightarrow> string" where
  "printFragmentsForType type =
     joinWith '',''
       (map (\<lambda>(k, f). NL @ frag_text f) (case ty_fragments type of None \<Rightarrow> [] | Some m \<Rightarrow> m))"

definition isExtension :: "gtype \<Rightarrow> bool" where
  "isExtension type =
     (ty_extensionASTNodes type \<noteq> None \<and>
      (case ty_astNode type of None \<Rightarrow> False | Some n \<Rightarrow> ast_fields n = None))"

definition printObject ::
  "printer_env \<Rightarrow> options option \<Rightarrow> gtype \<Rightarrow> nat \<Rightarrow> string result \<times> gtype \<times> nat" where
  "printObject E opts type nextKeyId =
     (let implementedInterfaces =
            (if ty_interfaces type \<noteq> [] then '' implements '' @ joinWith '' & '' (ty_interfaces type)
             else [])
      in (case printFields E opts type of
            (Inl e, type1) \<Rightarrow> (Inl e, type1, nextKeyId)
          | (Inr fieldBlock, type1) \<Rightarrow>
              (case printKeys E type1 nextKeyId of
                 (ks, k) \<Rightarrow>
                   (Inr (printDescription opts (ty_description type) [] True @
                         (if isExtension type then ''extend '' else []) @
                         ''type '' @ ty_name type @
                         implementedInterfaces @
                         fieldBlock @ ks @ printFragmentsForType type1),
                    type1, k))))"

definition printInterface ::
  "printer_env \<Rightarrow> options option \<Rightarrow> gtype \<Rightarrow> string result \<times> gtype" where
  "printInterface E opts type =
     (case printFields E opts type of
        (Inl e, type1) \<Rightarrow> (Inl e, type1)
      | (Inr fieldBlock, type1) \<Rightarrow>
          (Inr (printDescription opts (ty_description type) [] True @
                (if isExtension type then ''extend '' else []) @
                ''interface '' @ ty_name type @
                fieldBlock @ printFragmentsForType type1),
           type1))"

definition printType ::
  "printer_env \<Rightarrow> options option \<Rightarrow> gtype \<Rightarrow> nat \<Rightarrow> string result \<times> gtype \<times> nat" where
  "printType E opts type nextKeyId =
     (case ty_kind type of
        Scalar \<Rightarrow> (Inr (printScalar opts type), type, nextKeyId)
      | Object \<Rightarrow> printObject E opts type nextKeyId
      | Interface \<Rightarrow>
          (case printInterface E opts type of (r, type1) \<Rightarrow> (r, type1, nextKeyId))
      | Union \<Rightarrow> (Inr (printUnion opts type), type, nextKeyId)
      | Enum \<Rightarrow> (Inr (printEnum opts type), type, nextKeyId)
      | InputObject \<Rightarrow> (Inr (printInputObject opts type), type, nextKeyId))"

text \<open>
  \<open>sort\<close> with a comparator, which is stable. The type objects are addressed by their
  position in the type map: sorting and filtering build new arrays of the same objects.
\<close>

fun insertBy :: "('a \<Rightarrow> 'a \<Rightarrow> int) \<Rightarrow> 'a \<Rightarrow> 'a list \<Rightarrow> 'a list" where
  "insertBy cmp x [] = [x]"
| "insertBy cmp x (y # ys) = (if cmp x y \<le> 0 then x # y # ys else y # insertBy cmp x ys)"

definition sortBy :: "('a \<Rightarrow> 'a \<Rightarrow> int) \<Rightarrow> 'a list \<Rightarrow> 'a list" where
  "sortBy cmp xs = foldr (insertBy cmp) xs []"

text \<open>\<open>types.map(type => printType(type, options))\<close> over the store of type objects.\<close>

fun printTypes ::
  "printer_env \<Rightarrow> options option \<Rightarrow> nat list \<Rightarrow> gtype list \<Rightarrow> nat
     \<Rightarrow> string list result \<times> gtype list \<times> nat" where
  "printTypes E opts [] store nextKeyId = (Inr [], store, nextKeyId)"
| "printTypes E opts (i # rest) store nextKeyId =
     (case printType E opts (store ! i) nextKeyId of
        (Inl e, type1, k) \<Rightarrow> (Inl e, store[i := type1], k)
      | (Inr text, type1, k) \<Rightarrow>
          (case printTypes E opts rest (store[i := type1]) k of
             (Inl e, store', k') \<Rightarrow> (Inl e, store', k')
           | (Inr texts, store', k') \<Rightarrow> (Inr (text # texts), store', k')))"

definition sortedTypes :: "printer_env \<Rightarrow> gtype list \<Rightarrow> nat list" where
  "sortedTypes E store =
     sortBy (\<lambda>i j. localeCompare E (ty_name (store ! i)) (ty_name (store ! j))) [0..<length store]"

text \<open>
  The call takes the module-level counter \<open>nextKeyId\<close> and returns the document (or the
  exception), the schema with its type objects as the call leaves them, and the counter.
\<close>

definition printFilteredSchema ::
  "printer_env \<Rightarrow> schema \<Rightarrow> service_definition list \<Rightarrow> (directive_def \<Rightarrow> bool) \<Rightarrow> (gtype \<Rightarrow> bool)
     \<Rightarrow> options option \<Rightarrow> nat \<Rightarrow> string result \<times> schema \<times> nat" where
  "printFilteredSchema E s serviceList directiveFilter typeFilter opts nextKeyId =
     (let ds = filter directiveFilter (directives s);
          types = filter (\<lambda>i. typeFilter (typeMap s ! i)) (sortedTypes E (typeMap s))
      in (case printTypes E opts types (typeMap s) nextKeyId of
            (Inl e, store, k) \<Rightarrow> (Inl e, s\<lparr>typeMap := store\<rparr>, k)
          | (Inr texts, store, k) \<Rightarrow>
              (Inr (joinWith (NL @ NL)
                      (filter (\<lambda>x. x \<noteq> [])
                         ([printSchemaDefinition s] @ csdlDefinitions E @ [printGraphs serviceList] @
                          map (printDirective opts) ds @ texts)) @ NL),
               s\<lparr>typeMap := store\<rparr>, k)))"

definition printComposedSdl ::
  "printer_env \<Rightarrow> schema \<Rightarrow> service_definition list \<Rightarrow> options option \<Rightarrow> nat
     \<Rightarrow> string result \<times> schema \<times> nat" where
  "printComposedSdl E s serviceList opts nextKeyId =
     printFilteredSchema E s serviceList
       (\<lambda>n. \<not> isSpecifiedDirective E n \<and> \<not> isFederationDirective E n)
       (isDefinedType E) opts nextKeyId"

section \<open>The five conditions, as the specification words them\<close>

text \<open>
  The field set of a directive (its first argument, a string that parses) has a top-level
  selection of the field.
\<close>

definition fieldSetMentions ::
  "(string \<Rightarrow> selection list option) \<Rightarrow> string \<Rightarrow> directive_node \<Rightarrow> bool" where
  "fieldSetMentions P fieldName d =
     (case dir_arguments d of
        Some (StringValue v # rest) \<Rightarrow>
          (case P v of
             None \<Rightarrow> False
           | Some selections \<Rightarrow> list_ex (isFieldNamed fieldName) selections)
      | _ \<Rightarrow> False)"

text \<open>1. A \<open>@key\<close> on the type selects the field at the top level.\<close>

definition usedInKey :: "(string \<Rightarrow> selection list option) \<Rightarrow> gtype \<Rightarrow> string \<Rightarrow> bool" where
  "usedInKey P t fieldName =
     list_ex (fieldSetMentions P fieldName) (findDirectivesOnNode (ty_astNode t) ''key'')"

text \<open>2. A \<open>@provides\<close> on some field returning the type selects the field at the top level.\<close>

definition usedInProvides ::
  "(string \<Rightarrow> selection list option) \<Rightarrow> schema \<Rightarrow> gtype \<Rightarrow> string \<Rightarrow> bool" where
  "usedInProvides P s t fieldName =
     list_ex (\<lambda>f. list_ex (fieldSetMentions P fieldName)
                    (findDirectivesOnNode (fld_astNode f) ''provides''))
       (findFieldsThatReturnType s t)"

text \<open>
  A selection reaches the field of the type: it is a selection of that name made on that
  type, or one of its nested selections, made on the return type of the field that it
  selects, reaches it.
\<close>

fun reaches :: "schema \<Rightarrow> selection \<Rightarrow> gtype \<Rightarrow> gtype \<Rightarrow> string \<Rightarrow> bool" where
  "reaches s (Field n sub) onType t fieldName =
     ((n = fieldName \<and> ty_name onType = ty_name t) \<or>
      (case sub of
         None \<Rightarrow> False
       | Some nested \<Rightarrow>
           (case getField onType n of
              None \<Rightarrow> False
            | Some f \<Rightarrow>
                (case lookupType s (getNamedType (fld_type f)) of
                   None \<Rightarrow> False
                 | Some returnType \<Rightarrow>
                     (\<exists>sel\<in>set nested. reaches s sel returnType t fieldName)))))"
| "reaches s (FragmentSpread n) onType t fieldName = False"
| "reaches s (InlineFragment c nested) onType t fieldName = False"

text \<open>
  3. A \<open>@requires\<close> on a field of some Object type reaches the field of the type through
  nested selections, starting from the type that declares the requiring field.
\<close>

definition reachedByRequires ::
  "(string \<Rightarrow> selection list option) \<Rightarrow> schema \<Rightarrow> gtype \<Rightarrow> string \<Rightarrow> bool" where
  "reachedByRequires P s t fieldName =
     list_ex (\<lambda>namedType.
       ty_kind namedType = Object \<and>
       list_ex (\<lambda>f.
         list_ex (\<lambda>d.
           (case dir_arguments d of
              Some (StringValue v # rest) \<Rightarrow>
                (case P v of
                   None \<Rightarrow> False
                 | Some selections \<Rightarrow> list_ex (\<lambda>sel. reaches s sel namedType t fieldName) selections)
            | _ \<Rightarrow> False))
           (findDirectivesOnNode (fld_astNode f) ''requires''))
         (ty_fields namedType))
       (typeMap s)"

text \<open>
  4. A \<open>@requires\<close> on a field of the same type, owned by the same service, selects the field
  at the top level.
\<close>

definition usedInRequiresOnType ::
  "(string \<Rightarrow> selection list option) \<Rightarrow> gtype \<Rightarrow> string \<Rightarrow> string \<Rightarrow> bool" where
  "usedInRequiresOnType P t serviceName fieldName =
     list_ex (\<lambda>f.
       (case fld_federation f of None \<Rightarrow> False | Some m \<Rightarrow> ff_serviceName m = JString serviceName) \<and>
       list_ex (fieldSetMentions P fieldName) (findDirectivesOnNode (fld_astNode f) ''requires''))
       (ty_fields t)"

text \<open>5. An interface that the type implements declares a field of this name.\<close>

definition declaredOnInterface :: "schema \<Rightarrow> gtype \<Rightarrow> string \<Rightarrow> bool" where
  "declaredOnInterface s t fieldName =
     list_ex (\<lambda>i.
       (case lookupType s i of
          None \<Rightarrow> False
        | Some interface \<Rightarrow> list_ex (\<lambda>f. fld_name f = fieldName) (ty_fields interface)))
       (ty_interfaces t)"

definition unused ::
  "(string \<Rightarrow> selection list option) \<Rightarrow> schema \<Rightarrow> gtype \<Rightarrow> string \<Rightarrow> string \<Rightarrow> bool" where
  "unused P s t serviceName fieldName =
     (\<not> usedInKey P t fieldName \<and>
      \<not> usedInProvides P s t fieldName \<and>
      \<not> reachedByRequires P s t fieldName \<and>
      \<not> usedInRequiresOnType P t serviceName fieldName \<and>
      \<not> declaredOnInterface s t fieldName)"

section \<open>Notions that the serializer's properties use\<close>

text \<open>A type object without the two properties that the serializer attaches to it.\<close>

definition withoutFragments :: "gtype \<Rightarrow> gtype" where
  "withoutFragments t = t\<lparr>ty_fragments := None, ty_nextFragmentId := None\<rparr>"

text \<open>
  A field with a non-empty \<open>requires\<close> or \<open>provides\<close>: the fields for which
  \<open>printFederationFieldDirectives\<close> calls \<open>findOrCreateFragment\<close>; and a type that has one.
\<close>

definition fieldNeedsFragment :: "gfield \<Rightarrow> bool" where
  "fieldNeedsFragment f =
     (case fld_federation f of
        None \<Rightarrow> False
      | Some m \<Rightarrow>
          (case ff_requires m of None \<Rightarrow> False | Some r \<Rightarrow> r \<noteq> []) \<or>
          (case ff_provides m of None \<Rightarrow> False | Some r \<Rightarrow> r \<noteq> []))"

definition synthesizesFragments :: "gtype \<Rightarrow> bool" where
  "synthesizesFragments t = list_ex fieldNeedsFragment (ty_fields t)"


text \<open>
  The words of the specification for a type that is purely an extension: its declaration has
  extension nodes, and its base node declares no fields.
\<close>

definition purelyExtension :: "gtype \<Rightarrow> bool" where
  "purelyExtension t =
     ((case ty_extensionASTNodes t of None \<Rightarrow> False | Some ns \<Rightarrow> ns \<noteq> []) \<and>
      (case ty_astNode t of
         None \<Rightarrow> False
       | Some n \<Rightarrow> (case ast_fields n of None \<Rightarrow> True | Some fs \<Rightarrow> fs = [])))"

section \<open>Example schemas\<close>

text \<open>The parser restricted to the field sets that the examples use.\<close>

definition exampleParse :: "string \<Rightarrow> selection list option" where
  "exampleParse = map_of
     [(''id'', [Field ''id'' None]),
      (''name'', [Field ''name'' None]),
      (''upc'', [Field ''upc'' None]),
      (''roles { canWrite }'', [Field ''roles'' (Some [Field ''canWrite'' None])]),
      (''roles { permission }'', [Field ''roles'' (Some [Field ''permission'' None])]),
      (''roles { permission { status } }'',
       [Field ''roles'' (Some [Field ''permission'' (Some [Field ''status'' None])])])]"

definition fieldNode :: "string \<Rightarrow> directive_node list \<Rightarrow> ast_node" where
  "fieldNode n ds = \<lparr>ast_name = n, ast_directives = Some ds, ast_fields = None\<rparr>"

definition typeNode :: "string \<Rightarrow> directive_node list \<Rightarrow> string list \<Rightarrow> ast_node" where
  "typeNode n ds fs = \<lparr>ast_name = n, ast_directives = Some ds, ast_fields = Some fs\<rparr>"

definition directive :: "string \<Rightarrow> string \<Rightarrow> directive_node" where
  "directive n fieldSet = \<lparr>dir_name = n, dir_arguments = Some [StringValue fieldSet]\<rparr>"

definition external :: directive_node where
  "external = \<lparr>dir_name = ''external'', dir_arguments = Some []\<rparr>"

definition plainField ::
  "string \<Rightarrow> type_ref \<Rightarrow> directive_node list \<Rightarrow> federation_field option \<Rightarrow> gfield" where
  "plainField n ty ds m =
     \<lparr>fld_name = n, fld_type = ty, fld_args = [], fld_description = None,
      fld_isDeprecated = False, fld_deprecationReason = None,
      fld_astNode = Some (fieldNode n ds), fld_federation = m\<rparr>"

definition ownedBy :: "string \<Rightarrow> federation_field option" where
  "ownedBy svc = Some \<lparr>ff_serviceName = JString svc, ff_requires = None, ff_provides = None\<rparr>"

definition plainType ::
  "string \<Rightarrow> kind \<Rightarrow> gfield list \<Rightarrow> string list \<Rightarrow> ast_node option \<Rightarrow> federation_type option
     \<Rightarrow> gtype" where
  "plainType n k fs is node m =
     \<lparr>ty_name = n, ty_kind = k, ty_description = None, ty_fields = fs, ty_inputFields = [],
      ty_interfaces = is, ty_unionTypes = [], ty_enumValues = [], ty_astNode = node,
      ty_extensionASTNodes = None, ty_federation = m, ty_fragments = None,
      ty_nextFragmentId = None\<rparr>"

definition plainSchema :: "gtype list \<Rightarrow> schema" where
  "plainSchema ts = \<lparr>typeMap = ts, directives = [], queryType = None, mutationType = None,
     subscriptionType = None\<rparr>"

text \<open>
  Scenario B of the specification: service A owns \<open>User\<close> with key \<open>id\<close>; service B extends it
  with the externals \<open>id\<close> and \<open>name\<close>, and \<open>Review.author\<close> has no \<open>@provides\<close>.
\<close>

definition userType :: gtype where
  "userType = plainType ''User'' Object
     [plainField ''id'' (NonNull (Named ''ID'')) [] (ownedBy ''A''),
      plainField ''name'' (Named ''String'') [] (ownedBy ''A''),
      plainField ''reviews'' (ListType (Named ''Review'')) [] (ownedBy ''B'')]
     []
     (Some (typeNode ''User'' [directive ''key'' ''id''] [''id'', ''name'']))
     (Some \<lparr>ft_serviceName = JString ''A'',
            ft_keys = Some [(''A'', Some [[Field ''id'' None]]), (''B'', Some [[Field ''id'' None]])],
            ft_externals =
              Some [(''B'', [fieldNode ''id'' [external], fieldNode ''name'' [external]])]\<rparr>)"

definition reviewType :: gtype where
  "reviewType = plainType ''Review'' Object
     [plainField ''author'' (Named ''User'') [] (ownedBy ''B''),
      plainField ''text'' (Named ''String'') [] (ownedBy ''B'')]
     []
     (Some (typeNode ''Review'' [] [''author'', ''text'']))
     (Some \<lparr>ft_serviceName = JString ''B'', ft_keys = None, ft_externals = None\<rparr>)"

definition scenarioB :: schema where
  "scenarioB = plainSchema [reviewType, userType]"

text \<open>
  \<open>Product\<close> is owned by service A, but only service B declares a key; B's external \<open>sku\<close> is
  used nowhere.
\<close>

definition productType :: gtype where
  "productType = plainType ''Product'' Object
     [plainField ''upc'' (NonNull (Named ''String'')) [] (ownedBy ''A''),
      plainField ''sku'' (Named ''String'') [] (ownedBy ''A'')]
     []
     (Some (typeNode ''Product'' [directive ''key'' ''upc''] [''upc'', ''sku'']))
     (Some \<lparr>ft_serviceName = JString ''A'',
            ft_keys = Some [(''B'', Some [[Field ''upc'' None]])],
            ft_externals = Some [(''B'', [fieldNode ''sku'' [external]])]\<rparr>)"

text \<open>
  \<open>AccountRoles\<close>, as in the comment of the validator: owned by service A, no \<open>@key\<close> at all,
  and service B's external \<open>canWrite\<close>; here no \<open>@requires\<close> selects it.
\<close>

definition accountRolesType :: gtype where
  "accountRolesType = plainType ''AccountRoles'' Object
     [plainField ''canWrite'' (Named ''Boolean'') [] (ownedBy ''A'')]
     []
     (Some (typeNode ''AccountRoles'' [] [''canWrite'']))
     (Some \<lparr>ft_serviceName = JString ''A'',
            ft_keys = None,
            ft_externals = Some [(''B'', [fieldNode ''canWrite'' [external]])]\<rparr>)"

definition productSchema :: schema where
  "productSchema = plainSchema [productType]"

definition rolesSchema :: schema where
  "rolesSchema = plainSchema [accountRolesType, productType]"

text \<open>
  \<open>Widget\<close> is owned by a service named \<open>constructor\<close>, and only service B declares a key:
  the keys object has no own entry for the owner, but \<open>keys['constructor']\<close> is the inherited
  function.
\<close>

definition widgetType :: gtype where
  "widgetType = plainType ''Widget'' Object
     [plainField ''upc'' (NonNull (Named ''String'')) [] (ownedBy ''constructor''),
      plainField ''sku'' (Named ''String'') [] (ownedBy ''constructor'')]
     []
     (Some (typeNode ''Widget'' [directive ''key'' ''upc''] [''upc'', ''sku'']))
     (Some \<lparr>ft_serviceName = JString ''constructor'',
            ft_keys = Some [(''B'', Some [[Field ''upc'' None]])],
            ft_externals = Some [(''B'', [fieldNode ''sku'' [external]])]\<rparr>)"

definition widgetSchema :: schema where
  "widgetSchema = plainSchema [widgetType]"

text \<open>
  Scenario C and P1 of the specification: service B's \<open>User.isAdmin\<close> requires a field set
  that starts at \<open>User.roles\<close>; \<open>AccountRoles\<close> and \<open>Permission\<close> carry service B's externals.
\<close>

definition requiringUserType :: "string \<Rightarrow> gtype" where
  "requiringUserType fieldSet = plainType ''User'' Object
     [plainField ''id'' (NonNull (Named ''ID'')) [] (ownedBy ''A''),
      plainField ''roles'' (NonNull (Named ''AccountRoles'')) [] (ownedBy ''A''),
      plainField ''isAdmin'' (NonNull (Named ''Boolean'')) [directive ''requires'' fieldSet]
        (ownedBy ''B'')]
     []
     (Some (typeNode ''User'' [directive ''key'' ''id''] [''id'', ''roles'']))
     (Some \<lparr>ft_serviceName = JString ''A'',
            ft_keys = Some [(''A'', Some [[Field ''id'' None]]), (''B'', Some [[Field ''id'' None]])],
            ft_externals = None\<rparr>)"

definition rolesType :: "ast_node list \<Rightarrow> gtype" where
  "rolesType externalFields = plainType ''AccountRoles'' Object
     [plainField ''canWrite'' (Named ''Boolean'') [] (ownedBy ''A''),
      plainField ''permission'' (Named ''Permission'') [] (ownedBy ''A'')]
     []
     (Some (typeNode ''AccountRoles'' [] [''canWrite'', ''permission'']))
     (Some \<lparr>ft_serviceName = JString ''A'', ft_keys = None,
            ft_externals = Some [(''B'', externalFields)]\<rparr>)"

definition permissionType :: "ast_node list \<Rightarrow> gtype" where
  "permissionType externalFields = plainType ''Permission'' Object
     [plainField ''status'' (Named ''String'') [] (ownedBy ''A'')]
     []
     (Some (typeNode ''Permission'' [] [''status'']))
     (Some \<lparr>ft_serviceName = JString ''A'', ft_keys = None,
            ft_externals = Some [(''B'', externalFields)]\<rparr>)"

definition scenarioC :: schema where
  "scenarioC = plainSchema
     [requiringUserType ''roles { canWrite }'',
      rolesType [fieldNode ''canWrite'' [external]],
      permissionType []]"

definition nestedRequires :: "string \<Rightarrow> schema" where
  "nestedRequires fieldSet = plainSchema
     [requiringUserType fieldSet,
      rolesType [],
      permissionType [fieldNode ''status'' [external]]]"

text \<open>
  \<open>Car implements Vehicle\<close>, as in the comment of the validator, with no \<open>@key\<close>, \<open>@provides\<close>
  or \<open>@requires\<close> anywhere: service B's externals are \<open>speed\<close>, which \<open>Vehicle\<close> declares, and
  \<open>colour\<close>, which it does not. \<open>Vehicle\<close> carries externals metadata of its own.
\<close>

definition vehicleType :: gtype where
  "vehicleType = plainType ''Vehicle'' Interface
     [plainField ''id'' (NonNull (Named ''ID'')) [] None,
      plainField ''speed'' (Named ''Int'') [] None]
     []
     (Some (typeNode ''Vehicle'' [] [''id'', ''speed'']))
     (Some \<lparr>ft_serviceName = JUndefined,
            ft_keys = None,
            ft_externals = Some [(''B'', [fieldNode ''id'' [external]])]\<rparr>)"

definition carType :: gtype where
  "carType = plainType ''Car'' Object
     [plainField ''id'' (NonNull (Named ''ID'')) [] (ownedBy ''A''),
      plainField ''speed'' (Named ''Int'') [] (ownedBy ''A''),
      plainField ''colour'' (Named ''String'') [] (ownedBy ''A'')]
     [''Vehicle'']
     (Some (typeNode ''Car'' [] [''id'', ''speed'', ''colour'']))
     (Some \<lparr>ft_serviceName = JString ''A'',
            ft_keys = None,
            ft_externals =
              Some [(''B'', [fieldNode ''speed'' [external], fieldNode ''colour'' [external]])]\<rparr>)"

definition vehicleSchema :: schema where
  "vehicleSchema = plainSchema [carType, vehicleType]"

text \<open>
  \<open>print\<close> of graphql-js on a selection node without alias, arguments or directives: a
  selection set is a block of indented lines.
\<close>

fun printSelection :: "selection \<Rightarrow> string" where
  "printSelection (Field n None) = n"
| "printSelection (Field n (Some sels)) =
     (if sels = [] then n
      else n @ '' {'' @ NL @ ''  '' @
           replaceNewlines (NL @ ''  '') (joinWith NL (map printSelection sels)) @ NL @ ''}'')"
| "printSelection (FragmentSpread n) = ''...'' @ n"
| "printSelection (InlineFragment c sels) =
     joinWith '' ''
       (filter (\<lambda>x. x \<noteq> [])
          [''...'',
           (case c of None \<Rightarrow> [] | Some t \<Rightarrow> ''on '' @ t),
           (if sels = [] then []
            else ''{'' @ NL @ ''  '' @
                 replaceNewlines (NL @ ''  '') (joinWith NL (map printSelection sels)) @ NL @ ''}'')])"

text \<open>
  Comparison by code units, which is how \<open>localeCompare\<close> orders names written in letters of
  one case.
\<close>

fun compareCodeUnits :: "string \<Rightarrow> string \<Rightarrow> int" where
  "compareCodeUnits [] [] = 0"
| "compareCodeUnits [] (y # ys) = - 1"
| "compareCodeUnits (x # xs) [] = 1"
| "compareCodeUnits (x # xs) (y # ys) =
     (if x = y then compareCodeUnits xs ys
      else if (of_char x :: nat) < of_char y then - 1 else 1)"

text \<open>
  An environment for the examples: the directive and type names that graphql-js and the
  federation modules treat as their own, and no \<open>csdlDefinitions\<close> text.
\<close>

definition exampleEnv :: printer_env where
  "exampleEnv =
     \<lparr>printNode = printSelection,
      localeCompare = compareCodeUnits,
      isSpecifiedDirective = (\<lambda>d. dd_name d \<in> set [''include'', ''skip'', ''deprecated'', ''specifiedBy'']),
      isFederationDirective = (\<lambda>d. dd_name d \<in> set [''key'', ''extends'', ''external'', ''requires'', ''provides'']),
      isSpecifiedScalarType = (\<lambda>t. ty_name t \<in> set [''String'', ''Int'', ''Float'', ''Boolean'', ''ID'']),
      isIntrospectionType = (\<lambda>t. ty_name t \<in> set [''__Schema'', ''__Directive'', ''__DirectiveLocation'',
         ''__Type'', ''__Field'', ''__InputValue'', ''__EnumValue'', ''__TypeKind'']),
      isFederationType = (\<lambda>t. ty_name t \<in> set [''_Any'', ''_Entity'', ''_Service'']),
      csdlDefinitions = []\<rparr>"

definition services :: "service_definition list" where
  "services = [\<lparr>svc_name = ''A'', svc_url = ''http://a''\<rparr>, \<lparr>svc_name = ''B'', svc_url = ''http://b''\<rparr>]"

definition requiring :: "string \<Rightarrow> selection list \<Rightarrow> federation_field option" where
  "requiring svc sels = Some \<lparr>ff_serviceName = JString svc, ff_requires = Some sels, ff_provides = None\<rparr>"

text \<open>\<open>Account\<close>: two fields of service B that both require \<open>id\<close>, and one key of service A.\<close>

definition accountType :: gtype where
  "accountType = plainType ''Account'' Object
     [plainField ''id'' (NonNull (Named ''ID'')) [] (ownedBy ''A''),
      plainField ''total'' (Named ''Int'') [] (requiring ''B'' [Field ''id'' None]),
      plainField ''open'' (Named ''Boolean'') [] (requiring ''B'' [Field ''id'' None])]
     []
     (Some (typeNode ''Account'' [directive ''key'' ''id''] [''id'']))
     (Some \<lparr>ft_serviceName = JString ''A'',
            ft_keys = Some [(''A'', Some [[Field ''id'' None]])],
            ft_externals = None\<rparr>)"

definition accountSchema :: schema where
  "accountSchema = \<lparr>typeMap = [accountType], directives = [], queryType = None, mutationType = None,
     subscriptionType = None\<rparr>"

definition accountText :: string where
  "accountText = joinWith NL
     [''type Account'',
      ''{'',
      ''  id: ID! @cs__resolve(graph: A)'',
      ''  total: Int @cs__resolve(graph: B, requires: '' @ DQ @ ''cs__fragmentOn_Account_id_0'' @ DQ @ '')'',
      ''  open: Boolean @cs__resolve(graph: B, requires: '' @ DQ @ ''cs__fragmentOn_Account_id_1'' @ DQ @ '')'',
      ''}'',
      ''fragment cs__keyFor_Account_0 on Account @cs__key(graph: A) { id }'',
      '''',
      ''fragment cs__fragmentOn_Account_id_0 on Account { id },'',
      ''fragment cs__fragmentOn_Account_id_1 on Account { id }'']"

definition accountFragments :: "(string \<times> fragment) list" where
  "accountFragments =
     [(''cs__fragmentOn_Account_id_0'',
       \<lparr>frag_id = ''cs__fragmentOn_Account_id_0'',
        frag_text = ''fragment cs__fragmentOn_Account_id_0 on Account { id }''\<rparr>),
      (''cs__fragmentOn_Account_id_1'',
       \<lparr>frag_id = ''cs__fragmentOn_Account_id_1'',
        frag_text = ''fragment cs__fragmentOn_Account_id_1 on Account { id }''\<rparr>)]"

text \<open>The document of \<open>productSchema\<close> when the module-level counter is \<open>n\<close>.\<close>

definition productDocument :: "nat \<Rightarrow> string" where
  "productDocument n = joinWith NL
     [''schema @using(spec: '' @ DQ @ ''https://specs.apollo.dev/cs/v0.1'' @ DQ @ '')'',
      ''{'',
      '''',
      ''}'',
      '''',
      ''enum cs__Graph {'',
      ''  A @cs__link(to: { http: { url: '' @ DQ @ ''http://a'' @ DQ @ '' } }),'',
      ''  B @cs__link(to: { http: { url: '' @ DQ @ ''http://b'' @ DQ @ '' } })'',
      ''}'',
      '''',
      ''type Product'',
      ''{'',
      ''  upc: String! @cs__resolve(graph: A)'',
      ''  sku: String @cs__resolve(graph: A)'',
      ''}'',
      ''fragment cs__keyFor_Product_'' @ showNat n @ '' on Product @cs__key(graph: B) { upc }'',
      '''',
      '''']"

text \<open>
  A schema with two directives of its own, declared in the order \<open>stream\<close>, \<open>cached\<close>, and the
  built-in \<open>skip\<close>; its types are \<open>Product\<close>, the scalar \<open>Date\<close> and the built-in \<open>String\<close>.
\<close>

definition plainDirective :: "string \<Rightarrow> directive_def" where
  "plainDirective n = \<lparr>dd_name = n, dd_description = None, dd_args = [], dd_isRepeatable = False,
     dd_locations = [''FIELD'']\<rparr>"

definition scalarType :: "string \<Rightarrow> gtype" where
  "scalarType n = plainType n Scalar [] [] None None"

definition directiveSchema :: schema where
  "directiveSchema =
     \<lparr>typeMap = [productType, scalarType ''Date'', scalarType ''String''],
      directives = [plainDirective ''stream'', plainDirective ''cached'', plainDirective ''skip''],
      queryType = None, mutationType = None, subscriptionType = None\<rparr>"

definition directiveDocument :: string where
  "directiveDocument = joinWith NL
     [''schema @using(spec: '' @ DQ @ ''https://specs.apollo.dev/cs/v0.1'' @ DQ @ '')'',
      ''{'',
      '''',
      ''}'',
      '''',
      ''enum cs__Graph {'',
      ''  A @cs__link(to: { http: { url: '' @ DQ @ ''http://a'' @ DQ @ '' } }),'',
      ''  B @cs__link(to: { http: { url: '' @ DQ @ ''http://b'' @ DQ @ '' } })'',
      ''}'',
      '''',
      ''directive @stream on FIELD'',
      '''',
      ''directive @cached on FIELD'',
      '''',
      ''scalar Date'',
      '''',
      ''type Product'',
      ''{'',
      ''  upc: String! @cs__resolve(graph: A)'',
      ''  sku: String @cs__resolve(graph: A)'',
      ''}'',
      ''fragment cs__keyFor_Product_0 on Product @cs__key(graph: B) { upc }'',
      '''',
      '''']"

text \<open>
  \<open>Review\<close> as a service that only extends it has it: extension nodes, and a base node without
  a field list.
\<close>

definition extensionType :: "kind \<Rightarrow> gtype" where
  "extensionType k =
     (plainType ''Review'' k
        [plainField ''body'' (Named ''String'') [] (ownedBy ''B'')]
        []
        (Some \<lparr>ast_name = ''Review'', ast_directives = None, ast_fields = None\<rparr>)
        (Some \<lparr>ft_serviceName = JString ''B'', ft_keys = None, ft_externals = None\<rparr>))
     \<lparr>ty_extensionASTNodes := Some [typeNode ''Review'' [] [''body'']]\<rparr>"

text \<open>
  \<open>Review\<close> with extension nodes and a base definition that has an empty field list, which is
  what the parser yields for \<open>type Review\<close> followed by \<open>extend type Review { body: String }\<close>.
\<close>

definition emptyBaseType :: "kind \<Rightarrow> gtype" where
  "emptyBaseType k =
     (plainType ''Review'' k
        [plainField ''body'' (Named ''String'') [] (ownedBy ''B'')]
        []
        (Some \<lparr>ast_name = ''Review'', ast_directives = None, ast_fields = Some []\<rparr>)
        (Some \<lparr>ft_serviceName = JString ''B'', ft_keys = None, ft_externals = None\<rparr>))
     \<lparr>ty_extensionASTNodes := Some [typeNode ''Review'' [] [''body'']]\<rparr>"




section \<open>Properties of the validator\<close>

lemma someM_Inr_iff:
  assumes "\<And>x c. x \<in> set xs \<Longrightarrow> f x = Inr c \<Longrightarrow> c = p x"
  shows "someM f xs = Inr b \<Longrightarrow> b = list_ex p xs"
  using assms
proof (induction xs)
  case Nil
  then show ?case by simp
next
  case (Cons x xs)
  show ?case
  proof (cases "f x")
    case (Inl e)
    with Cons.prems(1) show ?thesis by simp
  next
    case (Inr c)
    have c: "c = p x" using Cons.prems(2)[of x c] Inr by simp
    show ?thesis
    proof (cases c)
      case True
      with Inr c Cons.prems(1) show ?thesis by simp
    next
      case False
      with Inr Cons.prems(1) have "someM f xs = Inr b" by simp
      then have "b = list_ex p xs" using Cons.IH Cons.prems(2) by simp
      with False c show ?thesis by simp
    qed
  qed
qed

lemma forEachM_Inr_mem:
  "forEachM f xs = Inr ys \<Longrightarrow> (e \<in> set ys) = (\<exists>x\<in>set xs. \<exists>zs. f x = Inr zs \<and> e \<in> set zs)"
  by (induction xs arbitrary: ys) (auto split: sum.splits)

lemma forEachM_Inr_all:
  "forEachM f xs = Inr ys \<Longrightarrow> x \<in> set xs \<Longrightarrow> \<exists>zs. f x = Inr zs"
  by (induction xs arbitrary: ys) (auto split: sum.splits)

lemma hasMatchingFieldInDirectives_Inr:
  "hasMatchingFieldInDirectives P ds f t = Inr b \<Longrightarrow> b = list_ex (fieldSetMentions P f) ds"
  unfolding hasMatchingFieldInDirectives_def
  by (erule someM_Inr_iff[rotated])
     (auto simp: fieldSetMentions_def split: option.splits list.splits value_node.splits)

lemma hasMatchingKeyOnType_Inr:
  "hasMatchingKeyOnType P t f = Inr b \<Longrightarrow> b = usedInKey P t f"
  unfolding hasMatchingKeyOnType_def usedInKey_def by (rule hasMatchingFieldInDirectives_Inr)

lemma provides_directive_Inr:
  "(case dir_arguments d of
      None \<Rightarrow> Inr False
    | Some [] \<Rightarrow> Inl TypeError
    | Some (OtherValue # rest) \<Rightarrow> Inr False
    | Some (StringValue v # rest) \<Rightarrow>
        (case P v of
           None \<Rightarrow> Inl MalformedFieldSet
         | Some selections \<Rightarrow> Inr (list_ex (isFieldNamed f) selections))) = Inr c
   \<Longrightarrow> c = fieldSetMentions P f d"
  by (auto simp: fieldSetMentions_def split: option.splits list.splits value_node.splits)

lemma hasMatchingProvidesOnAnotherType_Inr:
  "hasMatchingProvidesOnAnotherType P s t f = Inr b \<Longrightarrow> b = usedInProvides P s t f"
  unfolding hasMatchingProvidesOnAnotherType_def usedInProvides_def
  apply (erule someM_Inr_iff[rotated])
  apply (erule someM_Inr_iff[rotated])
  apply (erule provides_directive_Inr)
  done

lemma selectionIncludesField_reaches:
  "selectionIncludesField s sels onType t f = list_ex (\<lambda>sel. reaches s sel onType t f) sels"
  by (induction s sels onType t f rule: selectionIncludesField.induct)
     (auto simp: list_ex_iff split: option.splits)

lemma requires_directive_Inr:
  "(case dir_arguments d of
      None \<Rightarrow> Inr False
    | Some [] \<Rightarrow> Inl TypeError
    | Some (OtherValue # rest) \<Rightarrow> Inr False
    | Some (StringValue v # rest) \<Rightarrow>
        (case P v of
           None \<Rightarrow> Inl MalformedFieldSet
         | Some selections \<Rightarrow> Inr (selectionIncludesField s selections nt t f))) = Inr c
   \<Longrightarrow> c = (case dir_arguments d of
              Some (StringValue v # rest) \<Rightarrow>
                (case P v of
                   None \<Rightarrow> False
                 | Some selections \<Rightarrow> list_ex (\<lambda>sel. reaches s sel nt t f) selections)
            | _ \<Rightarrow> False)"
  by (auto simp: selectionIncludesField_reaches split: option.splits list.splits value_node.splits)

lemma hasMatchingRequiresOnAnotherType_Inr:
  "hasMatchingRequiresOnAnotherType P s t f = Inr b \<Longrightarrow> b = reachedByRequires P s t f"
  unfolding hasMatchingRequiresOnAnotherType_def reachedByRequires_def
  apply (erule someM_Inr_iff[rotated])
  apply (simp split: if_splits)
  apply (drule someM_Inr_iff[rotated])
   apply (erule someM_Inr_iff[rotated])
   apply (erule requires_directive_Inr)
  apply simp
  done

lemma hasMatchingRequiresOnType_Inr:
  "hasMatchingRequiresOnType P t svc f = Inr b \<Longrightarrow> b = usedInRequiresOnType P t svc f"
  unfolding hasMatchingRequiresOnType_def usedInRequiresOnType_def
  apply (erule someM_Inr_iff[rotated])
  apply (auto split: if_splits option.splits dest: hasMatchingFieldInDirectives_Inr)
  done

lemma interface_fields_iff:
  "(f \<in> set (fieldsOnInterfacesImplementedByParentType s t)) = declaredOnInterface s t f"
  unfolding fieldsOnInterfacesImplementedByParentType_def declaredOnInterface_def getInterfaces_def
    apply (auto simp: list_ex_iff List.map_filter_def split: option.splits)
   apply force
  apply force
  done


lemma checkExternalField_order:
  "checkExternalField P s t svc ef =
     (case someM (\<lambda>c. c)
        [hasMatchingKeyOnType P t (ast_name ef),
         hasMatchingProvidesOnAnotherType P s t (ast_name ef),
         hasMatchingRequiresOnAnotherType P s t (ast_name ef),
         hasMatchingRequiresOnType P t svc (ast_name ef),
         Inr (ast_name ef \<in> set (fieldsOnInterfacesImplementedByParentType s t))] of
        Inl e \<Rightarrow> Inl e
      | Inr used \<Rightarrow> if used then Inr [] else Inr [unusedError svc (ty_name t) ef])"
  unfolding checkExternalField_def
  by (simp add: continueIf_def split: sum.splits)

lemma checkExternalField_Inr:
  assumes "checkExternalField P s t svc ef = Inr errs"
  shows "errs = (if unused P s t svc (ast_name ef) then [unusedError svc (ty_name t) ef] else [])"
  using assms unfolding checkExternalField_def unused_def continueIf_def
  by (auto split: sum.splits if_splits
      dest: hasMatchingKeyOnType_Inr hasMatchingProvidesOnAnotherType_Inr
        hasMatchingRequiresOnAnotherType_Inr hasMatchingRequiresOnType_Inr
      simp: interface_fields_iff)

lemma checkType_Inr_mem:
  assumes "checkType P s t = Inr errs"
  shows "(e \<in> set errs) =
     (ty_kind t = Object \<and>
      (case ty_federation t of
         None \<Rightarrow> False
       | Some m \<Rightarrow>
           \<not> ownerHasNoKey m \<and>
           (case ft_externals m of
              None \<Rightarrow> False
            | Some externals \<Rightarrow>
                (\<exists>(svc, efs)\<in>set externals. \<exists>ef\<in>set efs.
                   unused P s t svc (ast_name ef) \<and> e = unusedError svc (ty_name t) ef))))"
proof (cases "ty_kind t = Object")
  case False
  with assms show ?thesis by (simp add: checkType_def)
next
  case obj: True
  show ?thesis
  proof (cases "ty_federation t")
    case None
    with assms obj show ?thesis by (simp add: checkType_def)
  next
    case (Some m)
    show ?thesis
    proof (cases "ownerHasNoKey m")
      case True
      with assms obj Some show ?thesis by (simp add: checkType_def)
    next
      case nk: False
      show ?thesis
      proof (cases "ft_externals m")
        case None
        with assms obj Some nk show ?thesis by (simp add: checkType_def)
      next
        case ex: (Some externals)
        let ?inner = "\<lambda>(serviceName, externalFieldsForService).
          forEachM (checkExternalField P s t serviceName) externalFieldsForService"
        from assms obj Some nk ex have run: "forEachM ?inner externals = Inr errs"
          by (simp add: checkType_def)
        have "(e \<in> set errs) =
          (\<exists>x\<in>set externals. \<exists>zs. ?inner x = Inr zs \<and> e \<in> set zs)"
          by (rule forEachM_Inr_mem[OF run])
        also have "\<dots> = (\<exists>(svc, efs)\<in>set externals. \<exists>ef\<in>set efs.
                   unused P s t svc (ast_name ef) \<and> e = unusedError svc (ty_name t) ef)"
        proof (rule bex_cong[OF refl], clarify)
          fix svc efs assume mem: "(svc, efs) \<in> set externals"
          from forEachM_Inr_all[OF run mem] obtain zs where
            zs: "forEachM (checkExternalField P s t svc) efs = Inr zs" by auto
          have "e \<in> set zs = (\<exists>ef\<in>set efs. \<exists>ys. checkExternalField P s t svc ef = Inr ys \<and> e \<in> set ys)"
            by (rule forEachM_Inr_mem[OF zs])
          also have "\<dots> = (\<exists>ef\<in>set efs. unused P s t svc (ast_name ef) \<and> e = unusedError svc (ty_name t) ef)"
          proof (rule bex_cong[OF refl])
            fix ef assume "ef \<in> set efs"
            from forEachM_Inr_all[OF zs this] obtain ys where
              ys: "checkExternalField P s t svc ef = Inr ys" by auto
            from checkExternalField_Inr[OF ys] ys
            show "(\<exists>ys. checkExternalField P s t svc ef = Inr ys \<and> e \<in> set ys) =
                  (unused P s t svc (ast_name ef) \<and> e = unusedError svc (ty_name t) ef)"
              by auto
          qed
          finally show "(\<exists>zs. forEachM (checkExternalField P s t svc) efs = Inr zs \<and> e \<in> set zs) =
            (\<exists>ef\<in>set efs. unused P s t svc (ast_name ef) \<and> e = unusedError svc (ty_name t) ef)"
            using zs by auto
        qed
        finally show ?thesis using obj Some nk ex by simp
      qed
    qed
  qed
qed

lemma externalUnused_Inr_mem:
  assumes "externalUnused P s = Inr errs"
  shows "(e \<in> set errs) = (\<exists>t\<in>set (typeMap s). \<exists>zs. checkType P s t = Inr zs \<and> e \<in> set zs)"
  using assms unfolding externalUnused_def by (rule forEachM_Inr_mem)

lemma same_name_same_type:
  "distinct (map ty_name ts) \<Longrightarrow> t \<in> set ts \<Longrightarrow> t' \<in> set ts \<Longrightarrow> ty_name t' = ty_name t \<Longrightarrow> t' = t"
  by (metis distinct_map inj_onD)

lemma unusedError_sel:
  "err_typeName (unusedError svc n ef) = n" "err_fieldName (unusedError svc n ef) = ast_name ef"
  by (simp_all add: unusedError_def)

lemma checkType_Inr_errors:
  assumes "checkType P s t = Inr zs" "e \<in> set zs"
  shows "ty_kind t = Object \<and> err_typeName e = ty_name t \<and>
         (\<exists>m. ty_federation t = Some m \<and> \<not> ownerHasNoKey m) \<and>
         \<not> declaredOnInterface s t (err_fieldName e)"
  using checkType_Inr_mem[OF assms(1), of e] assms(2)
  by (auto simp: unusedError_sel unused_def split: option.splits)

text \<open>
  C9. The validator examines only types of Object kind: for a type of any other kind in the
  type map (an Interface carrying externals metadata, say) the loop body yields nothing, and
  no error of a completed run names that type. Type names are unique in a type map.
\<close>

theorem externalUnused_only_object_types:
  assumes "externalUnused P s = Inr errs"
    and "distinct (map ty_name (typeMap s))"
    and "t \<in> set (typeMap s)"
    and "ty_kind t \<noteq> Object"
  shows "checkType P s t = Inr [] \<and> (\<forall>e\<in>set errs. err_typeName e \<noteq> ty_name t)"
proof
  show "checkType P s t = Inr []" using assms(4) by (simp add: checkType_def)
  show "\<forall>e\<in>set errs. err_typeName e \<noteq> ty_name t"
  proof
    fix e assume "e \<in> set errs"
    then obtain t' zs where t': "t' \<in> set (typeMap s)" "checkType P s t' = Inr zs" "e \<in> set zs"
      using externalUnused_Inr_mem[OF assms(1), of e] by auto
    from checkType_Inr_errors[OF t'(2,3)] have k: "ty_kind t' = Object" "err_typeName e = ty_name t'"
      by auto
    show "err_typeName e \<noteq> ty_name t"
    proof
      assume "err_typeName e = ty_name t"
      with k have "ty_name t' = ty_name t" by simp
      from same_name_same_type[OF assms(2) assms(3) t'(1) this] k(1) assms(4) show False by simp
    qed
  qed
qed

theorem externalUnused_only_object_types_witness:
  "externalUnused exampleParse vehicleSchema =
     Inr [unusedError ''B'' ''Car'' (fieldNode ''colour'' [external])] \<and>
   ty_kind vehicleType = Interface \<and>
   (case ty_federation vehicleType of
      None \<Rightarrow> False
    | Some m \<Rightarrow> ft_externals m = Some [(''B'', [fieldNode ''id'' [external]])]) \<and>
   checkType exampleParse vehicleSchema vehicleType = Inr [] \<and>
   err_typeName (unusedError ''B'' ''Car'' (fieldNode ''colour'' [external])) \<noteq> ty_name vehicleType"
proof -
  have run: "externalUnused exampleParse vehicleSchema =
     Inr [unusedError ''B'' ''Car'' (fieldNode ''colour'' [external])]"
    by code_simp
  have d: "distinct (map ty_name (typeMap vehicleSchema))" by code_simp
  have m: "vehicleType \<in> set (typeMap vehicleSchema)" by code_simp
  have k: "ty_kind vehicleType \<noteq> Object" by code_simp
  have x: "ty_kind vehicleType = Interface \<and>
   (case ty_federation vehicleType of
      None \<Rightarrow> False
    | Some m \<Rightarrow> ft_externals m = Some [(''B'', [fieldNode ''id'' [external]])])"
    by (simp add: vehicleType_def plainType_def)
  from externalUnused_only_object_types[OF run d m k]
  have "checkType exampleParse vehicleSchema vehicleType = Inr [] \<and>
    err_typeName (unusedError ''B'' ''Car'' (fieldNode ''colour'' [external])) \<noteq> ty_name vehicleType"
    by simp
  with run x show ?thesis by simp
qed

text \<open>
  C4, amended. A type whose metadata declares a non-empty owning service and has a keys object
  in which \<open>keys[owner]\<close> is falsy (no own entry for the owner, or one stored as \<open>undefined\<close>,
  and the owner's name is not a property that every object inherits) is skipped entirely:
  the loop body yields nothing for it, and no error of a completed run names that type. A
  type without a keys object is not skipped: every unused external of such an Object type
  gets its error.
\<close>

theorem externalUnused_skips_owner_without_key:
  assumes "externalUnused P s = Inr errs"
    and "distinct (map ty_name (typeMap s))"
    and "t \<in> set (typeMap s)"
    and "ty_federation t = Some m"
  shows "(ft_serviceName m = JString owner \<and> owner \<noteq> [] \<and> ft_keys m = Some ks \<and>
          \<not> keysHas ks owner \<longrightarrow>
            checkType P s t = Inr [] \<and> (\<forall>e\<in>set errs. err_typeName e \<noteq> ty_name t)) \<and>
         (ty_kind t = Object \<and> ft_keys m = None \<and> ft_externals m = Some externals \<and>
          (serviceName, externalFields) \<in> set externals \<and> ef \<in> set externalFields \<and>
          unused P s t serviceName (ast_name ef) \<longrightarrow>
            unusedError serviceName (ty_name t) ef \<in> set errs)"
proof (intro conjI impI)
  assume a: "ft_serviceName m = JString owner \<and> owner \<noteq> [] \<and> ft_keys m = Some ks \<and>
          \<not> keysHas ks owner"
  then have skip: "ownerHasNoKey m" by (simp add: ownerHasNoKey_def)
  show "checkType P s t = Inr []" using assms(4) skip by (simp add: checkType_def)
  show "\<forall>e\<in>set errs. err_typeName e \<noteq> ty_name t"
  proof
    fix e assume "e \<in> set errs"
    then obtain t' zs where t': "t' \<in> set (typeMap s)" "checkType P s t' = Inr zs" "e \<in> set zs"
      using externalUnused_Inr_mem[OF assms(1), of e] by auto
    from checkType_Inr_errors[OF t'(2,3)] obtain m' where
      k: "err_typeName e = ty_name t'" "ty_federation t' = Some m'" "\<not> ownerHasNoKey m'"
      by auto
    show "err_typeName e \<noteq> ty_name t"
    proof
      assume "err_typeName e = ty_name t"
      with k have "ty_name t' = ty_name t" by simp
      from same_name_same_type[OF assms(2) assms(3) t'(1) this] k(2,3) assms(4) skip
      show False by simp
    qed
  qed
next
  assume a: "ty_kind t = Object \<and> ft_keys m = None \<and> ft_externals m = Some externals \<and>
          (serviceName, externalFields) \<in> set externals \<and> ef \<in> set externalFields \<and>
          unused P s t serviceName (ast_name ef)"
  then have nk: "\<not> ownerHasNoKey m" by (simp add: ownerHasNoKey_def split: js_string.splits)
  from forEachM_Inr_all[OF assms(1)[unfolded externalUnused_def] assms(3)] obtain zs where
    zs: "checkType P s t = Inr zs" by auto
  from checkType_Inr_mem[OF zs, of "unusedError serviceName (ty_name t) ef"] a nk assms(4)
  have "unusedError serviceName (ty_name t) ef \<in> set zs" by auto
  with zs assms(3) show "unusedError serviceName (ty_name t) ef \<in> set errs"
    using externalUnused_Inr_mem[OF assms(1), of "unusedError serviceName (ty_name t) ef"] by auto
qed

theorem externalUnused_skips_owner_without_key_witness:
  "externalUnused exampleParse rolesSchema =
     Inr [unusedError ''B'' ''AccountRoles'' (fieldNode ''canWrite'' [external])] \<and>
   checkType exampleParse rolesSchema productType = Inr [] \<and>
   err_typeName (unusedError ''B'' ''AccountRoles'' (fieldNode ''canWrite'' [external]))
     \<noteq> ty_name productType \<and>
   unusedError ''B'' (ty_name accountRolesType) (fieldNode ''canWrite'' [external])
     \<in> set [unusedError ''B'' ''AccountRoles'' (fieldNode ''canWrite'' [external])]"
proof -
  have run: "externalUnused exampleParse rolesSchema =
     Inr [unusedError ''B'' ''AccountRoles'' (fieldNode ''canWrite'' [external])]"
    by code_simp
  have d: "distinct (map ty_name (typeMap rolesSchema))" by code_simp
  have m: "productType \<in> set (typeMap rolesSchema)" by code_simp
  have f: "ty_federation productType = Some \<lparr>ft_serviceName = JString ''A'',
            ft_keys = Some [(''B'', Some [[Field ''upc'' None]])],
            ft_externals = Some [(''B'', [fieldNode ''sku'' [external]])]\<rparr>"
    by (simp add: productType_def plainType_def)
  have k: "\<not> keysHas [(''B'', Some [[Field ''upc'' None]])] ''A''" by code_simp
  from externalUnused_skips_owner_without_key[OF run d m f,
      of "''A''" "[(''B'', Some [[Field ''upc'' None]])]"] k
  have 1: "checkType exampleParse rolesSchema productType = Inr [] \<and>
    (\<forall>e\<in>set [unusedError ''B'' ''AccountRoles'' (fieldNode ''canWrite'' [external])].
       err_typeName e \<noteq> ty_name productType)"
    by simp
  have m': "accountRolesType \<in> set (typeMap rolesSchema)" by code_simp
  have f': "ty_federation accountRolesType = Some \<lparr>ft_serviceName = JString ''A'',
            ft_keys = None,
            ft_externals = Some [(''B'', [fieldNode ''canWrite'' [external]])]\<rparr>"
    by (simp add: accountRolesType_def plainType_def)
  have o: "ty_kind accountRolesType = Object" by (simp add: accountRolesType_def plainType_def)
  have u: "unused exampleParse rolesSchema accountRolesType ''B''
             (ast_name (fieldNode ''canWrite'' [external]))"
    by code_simp
  from externalUnused_skips_owner_without_key[OF run d m' f',
      of _ _ "[(''B'', [fieldNode ''canWrite'' [external]])]" "''B''"
         "[fieldNode ''canWrite'' [external]]" "fieldNode ''canWrite'' [external]"] o u
  have 2: "unusedError ''B'' (ty_name accountRolesType) (fieldNode ''canWrite'' [external])
     \<in> set [unusedError ''B'' ''AccountRoles'' (fieldNode ''canWrite'' [external])]"
    by simp
  from run 1 2 show ?thesis by simp
qed

text \<open>
  C4 as stated fails twice. \<open>AccountRoles\<close> declares the owner A, which has no key entry
  (there is no keys object), and the validator emits an error for its external field.
  \<open>Widget\<close> declares the owner \<open>constructor\<close>, for which the keys object has no entry, and the
  validator emits an error for its external field as well.
\<close>

theorem externalUnused_skips_owner_without_key_counterexample:
  "accountRolesType \<in> set (typeMap rolesSchema) \<and>
   ty_kind accountRolesType = Object \<and>
   (case ty_federation accountRolesType of
      None \<Rightarrow> False
    | Some m \<Rightarrow> ft_serviceName m = JString ''A'' \<and> ft_keys m = None) \<and>
   externalUnused exampleParse rolesSchema =
     Inr [unusedError ''B'' ''AccountRoles'' (fieldNode ''canWrite'' [external])] \<and>
   err_typeName (unusedError ''B'' ''AccountRoles'' (fieldNode ''canWrite'' [external]))
     = ty_name accountRolesType \<and>
   widgetType \<in> set (typeMap widgetSchema) \<and>
   ty_kind widgetType = Object \<and>
   (case ty_federation widgetType of
      None \<Rightarrow> False
    | Some m \<Rightarrow> ft_serviceName m = JString ''constructor'' \<and>
               ft_keys m = Some [(''B'', Some [[Field ''upc'' None]])]) \<and>
   externalUnused exampleParse widgetSchema =
     Inr [unusedError ''B'' ''Widget'' (fieldNode ''sku'' [external])]"
  by code_simp

text \<open>
  C5. If the type implements an interface that declares a field of the same name, no error of
  a completed run names that type and field, whatever \<open>@key\<close>, \<open>@provides\<close> and \<open>@requires\<close> the
  schema has or lacks.
\<close>

theorem externalUnused_interface_escape:
  assumes "externalUnused P s = Inr errs"
    and "distinct (map ty_name (typeMap s))"
    and "t \<in> set (typeMap s)"
    and "declaredOnInterface s t fieldName"
  shows "\<forall>e\<in>set errs. \<not> (err_typeName e = ty_name t \<and> err_fieldName e = fieldName)"
proof
  fix e assume "e \<in> set errs"
  then obtain t' zs where t': "t' \<in> set (typeMap s)" "checkType P s t' = Inr zs" "e \<in> set zs"
    using externalUnused_Inr_mem[OF assms(1), of e] by auto
  from checkType_Inr_errors[OF t'(2,3)] have
    k: "err_typeName e = ty_name t'" "\<not> declaredOnInterface s t' (err_fieldName e)"
    by auto
  show "\<not> (err_typeName e = ty_name t \<and> err_fieldName e = fieldName)"
  proof
    assume a: "err_typeName e = ty_name t \<and> err_fieldName e = fieldName"
    with k have "ty_name t' = ty_name t" by simp
    from same_name_same_type[OF assms(2) assms(3) t'(1) this] k(2) a assms(4)
    show False by simp
  qed
qed

theorem externalUnused_interface_escape_witness:
  "externalUnused exampleParse vehicleSchema =
     Inr [unusedError ''B'' ''Car'' (fieldNode ''colour'' [external])] \<and>
   declaredOnInterface vehicleSchema carType ''speed'' \<and>
   \<not> (err_typeName (unusedError ''B'' ''Car'' (fieldNode ''colour'' [external])) = ty_name carType \<and>
      err_fieldName (unusedError ''B'' ''Car'' (fieldNode ''colour'' [external])) = ''speed'')"
proof -
  have run: "externalUnused exampleParse vehicleSchema =
     Inr [unusedError ''B'' ''Car'' (fieldNode ''colour'' [external])]"
    by code_simp
  have d: "distinct (map ty_name (typeMap vehicleSchema))" by code_simp
  have m: "carType \<in> set (typeMap vehicleSchema)" by code_simp
  have i: "declaredOnInterface vehicleSchema carType ''speed''" by code_simp
  from externalUnused_interface_escape[OF run d m i]
  have "\<not> (err_typeName (unusedError ''B'' ''Car'' (fieldNode ''colour'' [external])) = ty_name carType \<and>
      err_fieldName (unusedError ''B'' ''Car'' (fieldNode ''colour'' [external])) = ''speed'')"
    by simp
  with run i show ?thesis by simp
qed

text \<open>
  The expected results of the specification for condition 3: Scenario C gives no error, and
  (P1) a field set three levels deep reaches \<open>Permission.status\<close> where one cut at the second
  level does not.
\<close>

lemma scenarioC_no_error:
  "externalUnused exampleParse scenarioC = Inr [] \<and>
   reachedByRequires exampleParse scenarioC (rolesType [fieldNode ''canWrite'' [external]]) ''canWrite''"
  by code_simp

lemma nested_requires_depth:
  "externalUnused exampleParse (nestedRequires ''roles { permission { status } }'') = Inr [] \<and>
   externalUnused exampleParse (nestedRequires ''roles { permission }'') =
     Inr [unusedError ''B'' ''Permission'' (fieldNode ''status'' [external])]"
  by code_simp

text \<open>
  C1, amended. In a completed run, an error is emitted exactly for the external fields
  declared by a service on an Object type with federation metadata that is not skipped by the
  owner-without-key escape (a non-empty owner, a keys object, and \<open>keys[owner]\<close> falsy), for
  which none of the five conditions holds; the error has code EXTERNAL_UNUSED, the service,
  the type name and the field name, and the field's \<open>@external\<close> directive nodes. The five
  checks of one field run in the listed order, as \<open>Array.some\<close> would run them: the first match
  (or the first exception) ends them.
\<close>

theorem externalUnused_error_iff_unused:
  assumes "externalUnused P s = Inr errs"
  shows "(e \<in> set errs \<longleftrightarrow>
           (\<exists>t\<in>set (typeMap s).
              ty_kind t = Object \<and>
              (case ty_federation t of
                 None \<Rightarrow> False
               | Some m \<Rightarrow>
                   \<not> ownerHasNoKey m \<and>
                   (case ft_externals m of
                      None \<Rightarrow> False
                    | Some externals \<Rightarrow>
                        (\<exists>(serviceName, externalFields)\<in>set externals. \<exists>ef\<in>set externalFields.
                           unused P s t serviceName (ast_name ef) \<and>
                           e = \<lparr>err_code = ''EXTERNAL_UNUSED'',
                                err_service = serviceName,
                                err_typeName = ty_name t,
                                err_fieldName = ast_name ef,
                                err_text = ''is marked as @external but is not used by a @requires, @key, or @provides directive.'',
                                err_nodes = findDirectivesOnNode (Some ef) ''external''\<rparr>))))) \<and>
         checkExternalField P s t' svc ef' =
           (case someM (\<lambda>c. c)
              [hasMatchingKeyOnType P t' (ast_name ef'),
               hasMatchingProvidesOnAnotherType P s t' (ast_name ef'),
               hasMatchingRequiresOnAnotherType P s t' (ast_name ef'),
               hasMatchingRequiresOnType P t' svc (ast_name ef'),
               Inr (declaredOnInterface s t' (ast_name ef'))] of
              Inl fatal \<Rightarrow> Inl fatal
            | Inr used \<Rightarrow> if used then Inr [] else Inr [unusedError svc (ty_name t') ef'])"
proof
  have "(e \<in> set errs) = (\<exists>t\<in>set (typeMap s). \<exists>zs. checkType P s t = Inr zs \<and> e \<in> set zs)"
    by (rule externalUnused_Inr_mem[OF assms])
  also have "\<dots> = (\<exists>t\<in>set (typeMap s).
              ty_kind t = Object \<and>
              (case ty_federation t of
                 None \<Rightarrow> False
               | Some m \<Rightarrow>
                   \<not> ownerHasNoKey m \<and>
                   (case ft_externals m of
                      None \<Rightarrow> False
                    | Some externals \<Rightarrow>
                        (\<exists>(serviceName, externalFields)\<in>set externals. \<exists>ef\<in>set externalFields.
                           unused P s t serviceName (ast_name ef) \<and>
                           e = unusedError serviceName (ty_name t) ef))))"
  proof (rule bex_cong[OF refl])
    fix t assume "t \<in> set (typeMap s)"
    from forEachM_Inr_all[OF assms[unfolded externalUnused_def] this] obtain zs where
      zs: "checkType P s t = Inr zs" by auto
    from checkType_Inr_mem[OF zs, of e] zs
    show "(\<exists>zs. checkType P s t = Inr zs \<and> e \<in> set zs) =
      (ty_kind t = Object \<and>
              (case ty_federation t of
                 None \<Rightarrow> False
               | Some m \<Rightarrow>
                   \<not> ownerHasNoKey m \<and>
                   (case ft_externals m of
                      None \<Rightarrow> False
                    | Some externals \<Rightarrow>
                        (\<exists>(serviceName, externalFields)\<in>set externals. \<exists>ef\<in>set externalFields.
                           unused P s t serviceName (ast_name ef) \<and>
                           e = unusedError serviceName (ty_name t) ef))))"
      by simp
  qed
  finally show "e \<in> set errs \<longleftrightarrow>
           (\<exists>t\<in>set (typeMap s).
              ty_kind t = Object \<and>
              (case ty_federation t of
                 None \<Rightarrow> False
               | Some m \<Rightarrow>
                   \<not> ownerHasNoKey m \<and>
                   (case ft_externals m of
                      None \<Rightarrow> False
                    | Some externals \<Rightarrow>
                        (\<exists>(serviceName, externalFields)\<in>set externals. \<exists>ef\<in>set externalFields.
                           unused P s t serviceName (ast_name ef) \<and>
                           e = \<lparr>err_code = ''EXTERNAL_UNUSED'',
                                err_service = serviceName,
                                err_typeName = ty_name t,
                                err_fieldName = ast_name ef,
                                err_text = ''is marked as @external but is not used by a @requires, @key, or @provides directive.'',
                                err_nodes = findDirectivesOnNode (Some ef) ''external''\<rparr>))))"
    unfolding unusedError_def .
next
  show "checkExternalField P s t' svc ef' =
           (case someM (\<lambda>c. c)
              [hasMatchingKeyOnType P t' (ast_name ef'),
               hasMatchingProvidesOnAnotherType P s t' (ast_name ef'),
               hasMatchingRequiresOnAnotherType P s t' (ast_name ef'),
               hasMatchingRequiresOnType P t' svc (ast_name ef'),
               Inr (declaredOnInterface s t' (ast_name ef'))] of
              Inl fatal \<Rightarrow> Inl fatal
            | Inr used \<Rightarrow> if used then Inr [] else Inr [unusedError svc (ty_name t') ef'])"
    unfolding checkExternalField_order interface_fields_iff ..
qed

theorem externalUnused_error_iff_unused_witness:
  "externalUnused exampleParse scenarioB = Inr [unusedError ''B'' ''User'' (fieldNode ''name'' [external])] \<and>
   unusedError ''B'' ''User'' (fieldNode ''name'' [external])
     \<in> set [unusedError ''B'' ''User'' (fieldNode ''name'' [external])] \<and>
   unused exampleParse scenarioB userType ''B'' ''name'' \<and>
   \<not> unused exampleParse scenarioB userType ''B'' ''id'' \<and>
   checkExternalField exampleParse scenarioB userType ''B'' (fieldNode ''id'' [external]) = Inr []"
proof -
  have run: "externalUnused exampleParse scenarioB =
      Inr [unusedError ''B'' ''User'' (fieldNode ''name'' [external])]"
    by code_simp
  have a: "unused exampleParse scenarioB userType ''B'' ''name''" by code_simp
  have b: "\<not> unused exampleParse scenarioB userType ''B'' ''id''" by code_simp
  have c: "checkExternalField exampleParse scenarioB userType ''B'' (fieldNode ''id'' [external]) = Inr []"
    by code_simp
  from externalUnused_error_iff_unused[OF run,
      of "unusedError ''B'' ''User'' (fieldNode ''name'' [external])" userType "''B''"
         "fieldNode ''id'' [external]"]
  have "unusedError ''B'' ''User'' (fieldNode ''name'' [external])
     \<in> set [unusedError ''B'' ''User'' (fieldNode ''name'' [external])]"
    by simp
  with run a b c show ?thesis by simp
qed

text \<open>
  C1 as stated fails: none of the five conditions holds for the external \<open>sku\<close> of \<open>Product\<close>,
  and no error is emitted, because the owner A of \<open>Product\<close> has no key entry.
\<close>

theorem externalUnused_error_iff_unused_counterexample:
  "productType \<in> set (typeMap productSchema) \<and>
   ty_kind productType = Object \<and>
   (case ty_federation productType of
      None \<Rightarrow> False
    | Some m \<Rightarrow> ft_externals m = Some [(''B'', [fieldNode ''sku'' [external]])]) \<and>
   unused exampleParse productSchema productType ''B'' ''sku'' \<and>
   externalUnused exampleParse productSchema = Inr []"
  by code_simp

section \<open>Properties of the serializer\<close>

subsection \<open>What a call leaves of the schema\<close>

lemma findOrCreateFragment_frame:
  "findOrCreateFragment E t sels = (i, t') \<Longrightarrow> withoutFragments t' = withoutFragments t"
  by (auto simp: findOrCreateFragment_def withoutFragments_def Let_def split: option.splits)

lemma printFederationFieldDirectives_frame:
  assumes "printFederationFieldDirectives E t f = (r, t')"
  shows "withoutFragments t' = withoutFragments t"
proof (cases "fld_federation f")
  case None
  with assms show ?thesis
    by (auto simp: printFederationFieldDirectives_def split: option.splits)
next
  case (Some m)
  define req where "req = (case ff_requires m of None \<Rightarrow> [] | Some r \<Rightarrow> r)"
  define prov where "prov = (case ff_provides m of None \<Rightarrow> [] | Some r \<Rightarrow> r)"
  define t1 where "t1 = (if req \<noteq> [] then snd (findOrCreateFragment E t req) else t)"
  define t2 where "t2 = (if prov \<noteq> [] then snd (findOrCreateFragment E t1 prov) else t1)"
  have 1: "withoutFragments t1 = withoutFragments t"
    unfolding t1_def using findOrCreateFragment_frame[of E t req] by (auto simp: prod_eq_iff)
  have 2: "withoutFragments t2 = withoutFragments t1"
    unfolding t2_def using findOrCreateFragment_frame[of E t1 prov] by (auto simp: prod_eq_iff)
  have "t' = t2"
    using assms Some
    unfolding printFederationFieldDirectives_def t2_def t1_def req_def prov_def
    by (auto simp: Let_def split: prod.splits if_splits)
  with 1 2 show ?thesis by simp
qed

lemma printFieldLines_frame:
  "printFieldLines E opts t fs = (r, t') \<Longrightarrow> withoutFragments t' = withoutFragments t"
proof (induction fs arbitrary: t r t')
  case Nil
  then show ?case by simp
next
  case (Cons a fs)
  obtain i f where a: "a = (i, f)" by (cases a)
  obtain r1 t1 where h: "printFederationFieldDirectives E t f = (r1, t1)" by force
  have 1: "withoutFragments t1 = withoutFragments t" by (rule printFederationFieldDirectives_frame[OF h])
  show ?case
  proof (cases r1)
    case (Inl e)
    with Cons.prems a h 1 show ?thesis by simp
  next
    case (Inr d)
    obtain r2 t2 where h2: "printFieldLines E opts t1 fs = (r2, t2)" by force
    from Cons.IH[OF h2] have 2: "withoutFragments t2 = withoutFragments t1" .
    from Cons.prems a h Inr h2 have "t' = t2" by (auto split: sum.splits)
    with 1 2 show ?thesis by simp
  qed
qed

lemma printFields_frame:
  "printFields E opts t = (r, t') \<Longrightarrow> withoutFragments t' = withoutFragments t"
  unfolding printFields_def
  by (auto split: prod.splits sum.splits dest: printFieldLines_frame)

lemma printObject_frame:
  "printObject E opts t k = (r, t', k') \<Longrightarrow> withoutFragments t' = withoutFragments t"
  unfolding printObject_def
  by (auto simp: Let_def split: prod.splits sum.splits dest: printFields_frame)

lemma printInterface_frame:
  "printInterface E opts t = (r, t') \<Longrightarrow> withoutFragments t' = withoutFragments t"
  unfolding printInterface_def
  by (auto split: prod.splits sum.splits dest: printFields_frame)

lemma printType_frame:
  "printType E opts t k = (r, t', k') \<Longrightarrow> withoutFragments t' = withoutFragments t"
  unfolding printType_def
  by (auto split: kind.splits prod.splits dest: printObject_frame printInterface_frame)

lemma printType_other_kinds:
  "printType E opts t k = (r, t', k') \<Longrightarrow> ty_kind t \<noteq> Object \<Longrightarrow> ty_kind t \<noteq> Interface \<Longrightarrow> t' = t"
  unfolding printType_def by (auto split: kind.splits)

lemma withoutFragments_sel:
  assumes "withoutFragments a = withoutFragments b"
  shows "ty_federation a = ty_federation b \<and> ty_kind a = ty_kind b \<and>
         ty_fields a = ty_fields b \<and> ty_name a = ty_name b"
proof -
  from assms have "ty_federation (withoutFragments a) = ty_federation (withoutFragments b)"
    "ty_kind (withoutFragments a) = ty_kind (withoutFragments b)"
    "ty_fields (withoutFragments a) = ty_fields (withoutFragments b)"
    "ty_name (withoutFragments a) = ty_name (withoutFragments b)"
    by simp_all
  then show ?thesis by (simp add: withoutFragments_def)
qed

lemma printFederationFieldDirectives_unchanged:
  "\<not> fieldNeedsFragment f \<Longrightarrow> printFederationFieldDirectives E t f = (r, t') \<Longrightarrow> t' = t"
  unfolding printFederationFieldDirectives_def fieldNeedsFragment_def
  by (auto simp: Let_def split: option.splits)

lemma printFieldLines_unchanged:
  "\<forall>x\<in>set fs. \<not> fieldNeedsFragment (snd x) \<Longrightarrow> printFieldLines E opts t fs = (r, t') \<Longrightarrow> t' = t"
proof (induction fs arbitrary: t r t')
  case Nil
  then show ?case by simp
next
  case (Cons a fs)
  obtain i f where a: "a = (i, f)" by (cases a)
  obtain r1 t1 where h: "printFederationFieldDirectives E t f = (r1, t1)" by force
  from Cons.prems(1) a have "\<not> fieldNeedsFragment f" by simp
  from printFederationFieldDirectives_unchanged[OF this h] have t1: "t1 = t" .
  show ?case
  proof (cases r1)
    case (Inl e)
    with Cons.prems(2) a h t1 show ?thesis by simp
  next
    case (Inr d)
    obtain r2 t2 where h2: "printFieldLines E opts t1 fs = (r2, t2)" by force
    from Cons.prems(1) have "\<forall>x\<in>set fs. \<not> fieldNeedsFragment (snd x)" by simp
    from Cons.IH[OF this h2] have 2: "t2 = t1" .
    from Cons.prems(2) a h Inr h2 have "t' = t2" by (auto split: sum.splits)
    with t1 2 show ?thesis by simp
  qed
qed

lemma printFields_unchanged:
  assumes "\<not> synthesizesFragments t" "printFields E opts t = (r, t')"
  shows "t' = t"
proof -
  from assms(1) have "\<forall>x\<in>set (enumerate 0 (ty_fields t)). \<not> fieldNeedsFragment (snd x)"
    by (auto simp: synthesizesFragments_def list_ex_iff in_set_enumerate_eq)
  with assms(2) show ?thesis
    unfolding printFields_def
    by (auto split: prod.splits sum.splits dest: printFieldLines_unchanged)
qed

lemma printType_unchanged:
  assumes "(ty_kind t \<noteq> Object \<and> ty_kind t \<noteq> Interface) \<or> \<not> synthesizesFragments t"
    and "printType E opts t k = (r, t', k')"
  shows "t' = t"
proof (cases "ty_kind t \<noteq> Object \<and> ty_kind t \<noteq> Interface")
  case True
  with assms(2) show ?thesis by (auto dest: printType_other_kinds)
next
  case False
  with assms(1) have n: "\<not> synthesizesFragments t" by simp
  from False have "ty_kind t = Object \<or> ty_kind t = Interface" by simp
  then show ?thesis
  proof
    assume "ty_kind t = Object"
    with assms(2) have "printObject E opts t k = (r, t', k')" by (simp add: printType_def)
    then show ?thesis
      unfolding printObject_def
      by (auto simp: Let_def split: prod.splits sum.splits dest: printFields_unchanged[OF n])
  next
    assume "ty_kind t = Interface"
    with assms(2) have "printInterface E opts t = (r, t')"
      by (auto simp: printType_def split: prod.splits)
    then show ?thesis
      unfolding printInterface_def
      by (auto split: prod.splits sum.splits dest: printFields_unchanged[OF n])
  qed
qed

lemma untouched_cong:
  assumes "withoutFragments a = withoutFragments b"
  shows "((ty_kind a \<noteq> Object \<and> ty_kind a \<noteq> Interface) \<or> \<not> synthesizesFragments a) =
         ((ty_kind b \<noteq> Object \<and> ty_kind b \<noteq> Interface) \<or> \<not> synthesizesFragments b)"
  using withoutFragments_sel[OF assms] by (simp add: synthesizesFragments_def)

lemma printTypes_frame:
  "printTypes E opts is store k = (r, store', k') \<Longrightarrow>
     length store' = length store \<and>
     (\<forall>j<length store.
        withoutFragments (store' ! j) = withoutFragments (store ! j) \<and>
        ((j \<notin> set is \<or> (ty_kind (store ! j) \<noteq> Object \<and> ty_kind (store ! j) \<noteq> Interface) \<or>
          \<not> synthesizesFragments (store ! j))
           \<longrightarrow> store' ! j = store ! j))"
proof (induction "is" arbitrary: store k r store' k')
  case Nil
  then show ?case by simp
next
  case (Cons i rest)
  let ?U = "\<lambda>t. (ty_kind t \<noteq> Object \<and> ty_kind t \<noteq> Interface) \<or> \<not> synthesizesFragments t"
  obtain r1 t1 k1 where h: "printType E opts (store ! i) k = (r1, t1, k1)"
    by (metis prod_cases3)
  let ?store1 = "store[i := t1]"
  have f1: "withoutFragments t1 = withoutFragments (store ! i)" by (rule printType_frame[OF h])
  have o1: "?U (store ! i) \<Longrightarrow> t1 = store ! i"
    by (rule printType_unchanged[OF _ h])
  have step_f: "\<And>j. j < length store \<Longrightarrow>
      withoutFragments (?store1 ! j) = withoutFragments (store ! j)"
    using f1 by (case_tac "j = i") simp_all
  have step_u: "\<And>j. j < length store \<Longrightarrow> j \<noteq> i \<or> ?U (store ! j) \<Longrightarrow> ?store1 ! j = store ! j"
    using o1 by (case_tac "j = i") auto
  have cong: "\<And>j. j < length store \<Longrightarrow> ?U (?store1 ! j) = ?U (store ! j)"
    by (rule untouched_cong[OF step_f])
  show ?case
  proof (cases r1)
    case (Inl e)
    with Cons.prems h have "store' = ?store1" by simp
    with step_f step_u show ?thesis by auto
  next
    case (Inr out)
    obtain r2 store2 k2 where h2: "printTypes E opts rest ?store1 k1 = (r2, store2, k2)"
      by (metis prod_cases3)
    from Cons.prems h Inr h2 have s': "store' = store2" by (auto split: sum.splits)
    from Cons.IH[OF h2] have ih_len: "length store2 = length ?store1"
      and ih_f: "\<And>j. j < length ?store1 \<Longrightarrow>
          withoutFragments (store2 ! j) = withoutFragments (?store1 ! j)"
      and ih_u: "\<And>j. j < length ?store1 \<Longrightarrow> j \<notin> set rest \<or> ?U (?store1 ! j) \<Longrightarrow>
          store2 ! j = ?store1 ! j"
      by blast+
    show ?thesis
    proof (intro conjI allI impI)
      show "length store' = length store" using ih_len s' by simp
    next
      fix j assume j: "j < length store"
      show "withoutFragments (store' ! j) = withoutFragments (store ! j)"
        using ih_f[of j] step_f[OF j] j s' by simp
    next
      fix j assume j: "j < length store"
        and c: "j \<notin> set (i # rest) \<or> (ty_kind (store ! j) \<noteq> Object \<and> ty_kind (store ! j) \<noteq> Interface) \<or>
          \<not> synthesizesFragments (store ! j)"
      from c have c0: "j \<notin> set (i # rest) \<or> ?U (store ! j)" by blast
      from c0 cong[OF j] have c1: "j \<notin> set rest \<or> ?U (?store1 ! j)" by auto
      from c0 have c2: "j \<noteq> i \<or> ?U (store ! j)" by auto
      from ih_u[of j] j c1 have "store2 ! j = ?store1 ! j" by simp
      moreover from step_u[OF j c2] have "?store1 ! j = store ! j" .
      ultimately show "store' ! j = store ! j" using s' by simp
    qed
  qed
qed

lemma set_insertBy: "set (insertBy cmp x xs) = insert x (set xs)"
  by (induction xs) auto

lemma set_sortBy: "set (sortBy cmp xs) = set xs"
  unfolding sortBy_def by (induction xs) (auto simp: set_insertBy)

lemma distinct_insertBy: "distinct (insertBy cmp x xs) = (x \<notin> set xs \<and> distinct xs)"
  by (induction xs) (auto simp: set_insertBy)

lemma distinct_sortBy: "distinct (sortBy cmp xs) = distinct xs"
  unfolding sortBy_def
  by (induction xs) (auto simp: distinct_insertBy set_sortBy[unfolded sortBy_def])

lemma sorted_insertBy:
  assumes total: "\<And>a b. cmp a b \<le> 0 \<or> cmp b a \<le> 0"
    and trans: "\<And>a b c. cmp a b \<le> 0 \<Longrightarrow> cmp b c \<le> 0 \<Longrightarrow> cmp a c \<le> 0"
  shows "sorted_wrt (\<lambda>a b. cmp a b \<le> 0) xs \<Longrightarrow> sorted_wrt (\<lambda>a b. cmp a b \<le> 0) (insertBy cmp x xs)"
proof (induction xs)
  case Nil
  then show ?case by simp
next
  case (Cons y ys)
  show ?case
  proof (cases "cmp x y \<le> 0")
    case True
    with Cons.prems trans show ?thesis by auto
  next
    case False
    with total[of x y] have "cmp y x \<le> 0" by simp
    with False Cons show ?thesis by (auto simp: set_insertBy)
  qed
qed

lemma sorted_sortBy:
  assumes total: "\<And>a b. cmp a b \<le> 0 \<or> cmp b a \<le> 0"
    and trans: "\<And>a b c. cmp a b \<le> 0 \<Longrightarrow> cmp b c \<le> 0 \<Longrightarrow> cmp a c \<le> 0"
  shows "sorted_wrt (\<lambda>a b. cmp a b \<le> 0) (sortBy cmp xs)"
  unfolding sortBy_def
  by (induction xs) (auto intro: sorted_insertBy[OF total trans])

lemma sorted_wrt_filter_keeps: "sorted_wrt R xs \<Longrightarrow> sorted_wrt R (filter p xs)"
  by (induction xs) auto

lemma set_sortedTypes: "set (sortedTypes E store) = {0..<length store}"
  by (simp add: sortedTypes_def set_sortBy)


text \<open>
  C7, amended. Whether the call returns or throws, it leaves the schema as it was except for
  the type objects, and every type object as it was except for the two properties
  \<open>fragments\<close> and \<open>nextFragmentId\<close> that \<open>findOrCreateFragment\<close> attaches; a type that is not
  printed (it does not pass the type filter), that is neither an Object nor an Interface,
  or that has no field with a non-empty \<open>requires\<close> or \<open>provides\<close>, is left as it was.
\<close>

theorem printComposedSdl_frame:
  assumes "printComposedSdl E s serviceList opts k = (r, s', k')"
  shows "s'\<lparr>typeMap := typeMap s\<rparr> = s \<and>
         length (typeMap s') = length (typeMap s) \<and>
         (\<forall>j<length (typeMap s).
            withoutFragments (typeMap s' ! j) = withoutFragments (typeMap s ! j) \<and>
            (\<not> isDefinedType E (typeMap s ! j) \<or>
             (ty_kind (typeMap s ! j) \<noteq> Object \<and> ty_kind (typeMap s ! j) \<noteq> Interface) \<or>
             \<not> synthesizesFragments (typeMap s ! j)
               \<longrightarrow> typeMap s' ! j = typeMap s ! j))"
proof -
  let ?types = "filter (\<lambda>i. isDefinedType E (typeMap s ! i)) (sortedTypes E (typeMap s))"
  obtain r1 store k1 where h: "printTypes E opts ?types (typeMap s) k = (r1, store, k1)"
    by (metis prod_cases3)
  from assms h have s': "s' = s\<lparr>typeMap := store\<rparr>"
    unfolding printComposedSdl_def printFilteredSchema_def
    by (auto simp: Let_def split: sum.splits)
  have nd: "\<And>j. \<not> isDefinedType E (typeMap s ! j) \<Longrightarrow> j \<notin> set ?types" by simp
  from printTypes_frame[OF h] s' nd show ?thesis by auto
qed

theorem printComposedSdl_frame_witness:
  "withoutFragments (typeMap (fst (snd (printComposedSdl exampleEnv accountSchema services None 0))) ! 0)
     = withoutFragments accountType \<and>
   ty_fragments (typeMap (fst (snd (printComposedSdl exampleEnv accountSchema services None 0))) ! 0)
     = Some accountFragments \<and>
   \<not> synthesizesFragments productType \<and>
   typeMap (fst (snd (printComposedSdl exampleEnv productSchema services None 0))) ! 0 = productType"
proof -
  let ?X = "printComposedSdl exampleEnv accountSchema services None 0"
  let ?Y = "printComposedSdl exampleEnv productSchema services None 0"
  have p: "?X = (fst ?X, fst (snd ?X), snd (snd ?X))" by simp
  have q: "?Y = (fst ?Y, fst (snd ?Y), snd (snd ?Y))" by simp
  have l: "0 < length (typeMap accountSchema)" "typeMap accountSchema ! 0 = accountType"
    by (simp_all add: accountSchema_def)
  have l': "0 < length (typeMap productSchema)" "typeMap productSchema ! 0 = productType"
    by (simp_all add: productSchema_def plainSchema_def)
  have n: "\<not> synthesizesFragments productType" by code_simp
  from printComposedSdl_frame[OF p] l
  have 1: "withoutFragments (typeMap (fst (snd ?X)) ! 0) = withoutFragments accountType"
    by auto
  have 2: "ty_fragments (typeMap (fst (snd ?X)) ! 0) = Some accountFragments"
    by code_simp
  from printComposedSdl_frame[OF q] l' n
  have 3: "typeMap (fst (snd ?Y)) ! 0 = productType"
    by auto
  from 1 2 3 n show ?thesis by simp
qed

text \<open>
  C7 as stated fails: after the call the type object \<open>Account\<close> of the schema carries a
  fragment map and a fragment counter that it did not have.
\<close>

theorem printComposedSdl_frame_counterexample:
  "ty_fragments (typeMap accountSchema ! 0) = None \<and>
   ty_nextFragmentId (typeMap accountSchema ! 0) = None \<and>
   ty_fragments (typeMap (fst (snd (printComposedSdl exampleEnv accountSchema services None 0))) ! 0)
     = Some accountFragments \<and>
   ty_nextFragmentId (typeMap (fst (snd (printComposedSdl exampleEnv accountSchema services None 0))) ! 0)
     = Some 2 \<and>
   fst (snd (printComposedSdl exampleEnv accountSchema services None 0)) \<noteq> accountSchema"
  by code_simp

subsection \<open>Fields without federation metadata\<close>

lemma printFederationFieldDirectives_Inl:
  "printFederationFieldDirectives E t f = (Inl e, t') \<Longrightarrow>
     e = TypeError \<and> fld_federation f = None \<and> ty_federation t = None"
  unfolding printFederationFieldDirectives_def
  by (auto simp: Let_def split: option.splits prod.splits if_splits)


lemma printFieldLines_Inl:
  "printFieldLines E opts t fs = (Inl e, t') \<Longrightarrow> e = TypeError"
proof (induction fs arbitrary: t t')
  case Nil
  then show ?case by simp
next
  case (Cons a fs)
  obtain i f where a: "a = (i, f)" by (cases a)
  obtain r1 t1 where h: "printFederationFieldDirectives E t f = (r1, t1)" by force
  show ?case
  proof (cases r1)
    case (Inl e1)
    with Cons.prems a h have "e = e1" by simp
    with printFederationFieldDirectives_Inl[of E t f e1 t1] h Inl show ?thesis by simp
  next
    case (Inr d)
    obtain r2 t2 where h2: "printFieldLines E opts t1 fs = (r2, t2)" by force
    with Cons.prems a h Inr have "r2 = Inl e" by (auto split: sum.splits)
    with h2 Cons.IH show ?thesis by blast
  qed
qed




lemma printFields_Inl: "printFields E opts t = (Inl e, t') \<Longrightarrow> e = TypeError"
  unfolding printFields_def by (auto split: prod.splits sum.splits dest: printFieldLines_Inl)

lemma printObject_Inl: "printObject E opts t k = (Inl e, t', k') \<Longrightarrow> e = TypeError"
  unfolding printObject_def
  by (auto simp: Let_def split: prod.splits sum.splits dest: printFields_Inl)

lemma printInterface_Inl: "printInterface E opts t = (Inl e, t') \<Longrightarrow> e = TypeError"
  unfolding printInterface_def
  by (auto split: prod.splits sum.splits dest: printFields_Inl)

lemma printType_Inl: "printType E opts t k = (Inl e, t', k') \<Longrightarrow> e = TypeError"
  unfolding printType_def
  by (auto split: kind.splits prod.splits dest: printObject_Inl printInterface_Inl)


lemma printTypes_Inl: "printTypes E opts is store k = (Inl e, store', k') \<Longrightarrow> e = TypeError"
proof (induction "is" arbitrary: store k store' k')
  case Nil
  then show ?case by simp
next
  case (Cons i rest)
  obtain r1 t1 k1 where h: "printType E opts (store ! i) k = (r1, t1, k1)" by (metis prod_cases3)
  show ?case
  proof (cases r1)
    case (Inl e1)
    with Cons.prems h have "e = e1" by simp
    with printType_Inl[of E opts "store ! i" k e1 t1 k1] h Inl show ?thesis by simp
  next
    case (Inr out)
    obtain r2 s2 k2 where h2: "printTypes E opts rest (store[i := t1]) k1 = (r2, s2, k2)"
      by (metis prod_cases3)
    with Cons.prems h Inr have "r2 = Inl e" by (auto split: sum.splits)
    with h2 Cons.IH show ?thesis by blast
  qed
qed





subsection \<open>The \<open>extend\<close> keyword\<close>

text \<open>
  C8, amended. An Object or Interface type is printed with \<open>extend\<close> if and only if its
  \<open>extensionASTNodes\<close> property is set, it has a base AST node, and that node has no field list
  at all; otherwise it is printed without \<open>extend\<close>. A base node with an empty field list
  counts as declaring fields.
\<close>

theorem extend_keyword_iff_no_base_field_list:
  "(printObject E opts t k = (Inr out, t', k') \<longrightarrow>
      (\<exists>rest. out = printDescription opts (ty_description t) [] True @
                    (if ty_extensionASTNodes t \<noteq> None \<and>
                        (case ty_astNode t of None \<Rightarrow> False | Some n \<Rightarrow> ast_fields n = None)
                     then ''extend type '' else ''type '') @
                    ty_name t @ rest) \<and>
      ((\<exists>rest. out = printDescription opts (ty_description t) [] True @ ''extend '' @ rest)
         \<longleftrightarrow> ty_extensionASTNodes t \<noteq> None \<and>
             (case ty_astNode t of None \<Rightarrow> False | Some n \<Rightarrow> ast_fields n = None))) \<and>
   (printInterface E opts t = (Inr out, t') \<longrightarrow>
      (\<exists>rest. out = printDescription opts (ty_description t) [] True @
                    (if ty_extensionASTNodes t \<noteq> None \<and>
                        (case ty_astNode t of None \<Rightarrow> False | Some n \<Rightarrow> ast_fields n = None)
                     then ''extend interface '' else ''interface '') @
                    ty_name t @ rest) \<and>
      ((\<exists>rest. out = printDescription opts (ty_description t) [] True @ ''extend '' @ rest)
         \<longleftrightarrow> ty_extensionASTNodes t \<noteq> None \<and>
             (case ty_astNode t of None \<Rightarrow> False | Some n \<Rightarrow> ast_fields n = None)))"
proof -
  let ?C = "ty_extensionASTNodes t \<noteq> None \<and>
            (case ty_astNode t of None \<Rightarrow> False | Some n \<Rightarrow> ast_fields n = None)"
  have ext: "isExtension t = ?C" by (simp add: isExtension_def)
  have obj: "printObject E opts t k = (Inr out, t', k') \<Longrightarrow>
     \<exists>rest. out = printDescription opts (ty_description t) [] True @
              (if ?C then ''extend '' else []) @ ''type '' @ ty_name t @ rest"
    unfolding printObject_def ext
    by (auto simp: Let_def split: prod.splits sum.splits)
  have itf: "printInterface E opts t = (Inr out, t') \<Longrightarrow>
     \<exists>rest. out = printDescription opts (ty_description t) [] True @
              (if ?C then ''extend '' else []) @ ''interface '' @ ty_name t @ rest"
    unfolding printInterface_def ext
    by (auto split: prod.splits sum.splits)
  show ?thesis
  proof (intro conjI impI)
    assume "printObject E opts t k = (Inr out, t', k')"
    from obj[OF this] obtain rest where
      o: "out = printDescription opts (ty_description t) [] True @
              (if ?C then ''extend '' else []) @ ''type '' @ ty_name t @ rest" ..
    show "\<exists>rest. out = printDescription opts (ty_description t) [] True @
                    (if ?C then ''extend type '' else ''type '') @ ty_name t @ rest"
      using o by auto
    show "(\<exists>rest. out = printDescription opts (ty_description t) [] True @ ''extend '' @ rest)
               \<longleftrightarrow> ?C"
      using o by auto
  next
    assume "printInterface E opts t = (Inr out, t')"
    from itf[OF this] obtain rest where
      o: "out = printDescription opts (ty_description t) [] True @
              (if ?C then ''extend '' else []) @ ''interface '' @ ty_name t @ rest" ..
    show "\<exists>rest. out = printDescription opts (ty_description t) [] True @
                    (if ?C then ''extend interface '' else ''interface '') @ ty_name t @ rest"
      using o by auto
    show "(\<exists>rest. out = printDescription opts (ty_description t) [] True @ ''extend '' @ rest)
               \<longleftrightarrow> ?C"
      using o by auto
  qed
qed

theorem extend_keyword_iff_no_base_field_list_witness:
  "printObject exampleEnv None (extensionType Object) 0 =
     (Inr (joinWith NL [''extend type Review {'', ''  body: String @cs__resolve(graph: B)'', ''}'']),
      extensionType Object, 0) \<and>
   printInterface exampleEnv None (extensionType Interface) =
     (Inr (joinWith NL [''extend interface Review {'', ''  body: String @cs__resolve(graph: B)'', ''}'']),
      extensionType Interface) \<and>
   (\<exists>rest. joinWith NL [''extend type Review {'', ''  body: String @cs__resolve(graph: B)'', ''}'']
      = printDescription None (ty_description (extensionType Object)) [] True @ ''extend '' @ rest) \<and>
   (\<exists>rest. joinWith NL [''extend interface Review {'', ''  body: String @cs__resolve(graph: B)'', ''}'']
      = printDescription None (ty_description (extensionType Interface)) [] True @ ''extend '' @ rest)"
proof -
  have o: "printObject exampleEnv None (extensionType Object) 0 =
     (Inr (joinWith NL [''extend type Review {'', ''  body: String @cs__resolve(graph: B)'', ''}'']),
      extensionType Object, 0)"
    by code_simp
  have i: "printInterface exampleEnv None (extensionType Interface) =
     (Inr (joinWith NL [''extend interface Review {'', ''  body: String @cs__resolve(graph: B)'', ''}'']),
      extensionType Interface)"
    by code_simp
  have c: "ty_extensionASTNodes (extensionType Object) \<noteq> None \<and>
      (case ty_astNode (extensionType Object) of None \<Rightarrow> False | Some n \<Rightarrow> ast_fields n = None)"
    "ty_extensionASTNodes (extensionType Interface) \<noteq> None \<and>
      (case ty_astNode (extensionType Interface) of None \<Rightarrow> False | Some n \<Rightarrow> ast_fields n = None)"
    by (simp_all add: extensionType_def plainType_def)
  from extend_keyword_iff_no_base_field_list[of exampleEnv None "extensionType Object" 0 _
      "extensionType Object" 0] o c(1)
  have 1: "\<exists>rest. joinWith NL [''extend type Review {'', ''  body: String @cs__resolve(graph: B)'', ''}'']
      = printDescription None (ty_description (extensionType Object)) [] True @ ''extend '' @ rest"
    by blast
  from extend_keyword_iff_no_base_field_list[of exampleEnv None "extensionType Interface" 0 _
      "extensionType Interface"] i c(2)
  have 2: "\<exists>rest. joinWith NL [''extend interface Review {'', ''  body: String @cs__resolve(graph: B)'', ''}'']
      = printDescription None (ty_description (extensionType Interface)) [] True @ ''extend '' @ rest"
    by blast
  from o i 1 2 show ?thesis by blast
qed

text \<open>
  C8 as stated fails: \<open>Review\<close> with extension nodes and a base node that declares no fields
  (its field list is empty) is purely an extension in the words of the claim, and is printed
  without \<open>extend\<close>.
\<close>

theorem extend_keyword_iff_no_base_field_list_counterexample:
  "purelyExtension (emptyBaseType Object) \<and>
   printObject exampleEnv None (emptyBaseType Object) 0 =
     (Inr (joinWith NL [''type Review {'', ''  body: String @cs__resolve(graph: B)'', ''}'']),
      emptyBaseType Object, 0) \<and>
   purelyExtension (emptyBaseType Interface) \<and>
   printInterface exampleEnv None (emptyBaseType Interface) =
     (Inr (joinWith NL [''interface Review {'', ''  body: String @cs__resolve(graph: B)'', ''}'']),
      emptyBaseType Interface)"
  by code_simp

subsection \<open>The order of the document\<close>

lemma printSchemaDefinition_nonempty: "printSchemaDefinition s \<noteq> []"
  by (simp add: printSchemaDefinition_def)

lemma printGraphs_nonempty: "printGraphs l \<noteq> []"
  by (simp add: printGraphs_def)

lemma printDirective_nonempty: "printDirective opts d \<noteq> []"
  by (simp add: printDirective_def)

lemma printType_nonempty: "printType E opts t k = (Inr out, t', k') \<Longrightarrow> out \<noteq> []"
  unfolding printType_def printObject_def printInterface_def printScalar_def printUnion_def
    printEnum_def printInputObject_def
  by (auto simp: Let_def split: kind.splits prod.splits sum.splits)

lemma printTypes_texts:
  "distinct is \<Longrightarrow> printTypes E opts is store k = (Inr texts, store', k') \<Longrightarrow>
     list_all2 (\<lambda>i out. out \<noteq> [] \<and> (\<exists>n. fst (printType E opts (store ! i) n) = Inr out)) is texts"
proof (induction "is" arbitrary: store k texts store' k')
  case Nil
  then show ?case by simp
next
  case (Cons i rest)
  obtain r1 t1 k1 where h: "printType E opts (store ! i) k = (r1, t1, k1)" by (metis prod_cases3)
  show ?case
  proof (cases r1)
    case (Inl e)
    with Cons.prems h show ?thesis by simp
  next
    case (Inr out)
    obtain r2 s2 k2 where h2: "printTypes E opts rest (store[i := t1]) k1 = (r2, s2, k2)"
      by (metis prod_cases3)
    from Cons.prems(2) h Inr h2 obtain outs where
      r2: "r2 = Inr outs" and texts: "texts = out # outs"
      by (auto split: sum.splits)
    from Cons.prems(1) have d: "distinct rest" and ni: "i \<notin> set rest" by auto
    from Cons.IH[OF d h2[unfolded r2]]
    have "list_all2 (\<lambda>j out. out \<noteq> [] \<and> (\<exists>n. fst (printType E opts (store[i := t1] ! j) n) = Inr out))
            rest outs" .
    then have tl: "list_all2 (\<lambda>j out. out \<noteq> [] \<and> (\<exists>n. fst (printType E opts (store ! j) n) = Inr out))
            rest outs"
    proof (rule list.rel_mono_strong)
      fix j out'
      assume "j \<in> set rest"
        and "out' \<noteq> [] \<and> (\<exists>n. fst (printType E opts (store[i := t1] ! j) n) = Inr out')"
      with ni show "out' \<noteq> [] \<and> (\<exists>n. fst (printType E opts (store ! j) n) = Inr out')"
        by (cases "j = i") auto
    qed
    from h Inr have h': "printType E opts (store ! i) k = (Inr out, t1, k1)" by simp
    have ne: "out \<noteq> []" by (rule printType_nonempty[OF h'])
    from h' have "fst (printType E opts (store ! i) k) = Inr out" by simp
    then have "\<exists>n. fst (printType E opts (store ! i) n) = Inr out" ..
    with ne have hd: "out \<noteq> [] \<and> (\<exists>n. fst (printType E opts (store ! i) n) = Inr out)"
      by simp
    from hd tl texts show ?thesis by simp
  qed
qed

lemma filter_nonempty_texts:
  "list_all2 (\<lambda>i out. out \<noteq> [] \<and> Q i out) is texts \<Longrightarrow> filter (\<lambda>x. x \<noteq> []) texts = texts"
  by (induction rule: list_all2_induct) auto


text \<open>
  C6, amended. A document that the call returns consists, in order and separated by blank
  lines, of: the schema definition block; the non-empty \<open>csdlDefinitions\<close>; the enum of the
  services; the definitions of the directives that are neither built-in nor federation
  directives, in the order of the schema's directive list; and the types that are neither
  built-in scalars, introspection types nor federation types, sorted by name under
  \<open>localeCompare\<close>, each as \<open>printType\<close> prints it.
\<close>

theorem printComposedSdl_document_order:
  assumes "printComposedSdl E s serviceList opts k = (Inr doc, s', k')"
    and total: "\<And>a b. localeCompare E a b \<le> 0 \<or> localeCompare E b a \<le> 0"
    and trans: "\<And>a b c. localeCompare E a b \<le> 0 \<Longrightarrow> localeCompare E b c \<le> 0
                  \<Longrightarrow> localeCompare E a c \<le> 0"
  shows "\<exists>types texts.
     doc = joinWith (NL @ NL)
             ([printSchemaDefinition s] @
              filter (\<lambda>x. x \<noteq> []) (csdlDefinitions E) @
              [printGraphs serviceList] @
              map (printDirective opts)
                (filter (\<lambda>d. \<not> isSpecifiedDirective E d \<and> \<not> isFederationDirective E d)
                   (directives s)) @
              texts) @ NL \<and>
     distinct types \<and>
     set types = {i. i < length (typeMap s) \<and> isDefinedType E (typeMap s ! i)} \<and>
     sorted_wrt (\<lambda>i j. localeCompare E (ty_name (typeMap s ! i)) (ty_name (typeMap s ! j)) \<le> 0)
       types \<and>
     list_all2 (\<lambda>i out. \<exists>n. fst (printType E opts (typeMap s ! i) n) = Inr out) types texts"
proof -
  let ?cmp = "\<lambda>i j. localeCompare E (ty_name (typeMap s ! i)) (ty_name (typeMap s ! j))"
  let ?types = "filter (\<lambda>i. isDefinedType E (typeMap s ! i)) (sortedTypes E (typeMap s))"
  let ?ds = "filter (\<lambda>d. \<not> isSpecifiedDirective E d \<and> \<not> isFederationDirective E d) (directives s)"
  obtain r1 store k1 where h: "printTypes E opts ?types (typeMap s) k = (r1, store, k1)"
    by (metis prod_cases3)
  from assms(1) h obtain texts where r1: "r1 = Inr texts"
    and doc: "doc = joinWith (NL @ NL)
                (filter (\<lambda>x. x \<noteq> [])
                   ([printSchemaDefinition s] @ csdlDefinitions E @ [printGraphs serviceList] @
                    map (printDirective opts) ?ds @ texts)) @ NL"
    unfolding printComposedSdl_def printFilteredSchema_def
    by (auto simp: Let_def split: sum.splits)
  have dist: "distinct ?types"
    by (simp add: sortedTypes_def distinct_sortBy)
  have st: "set ?types = {i. i < length (typeMap s) \<and> isDefinedType E (typeMap s ! i)}"
    by (auto simp: set_sortedTypes)
  have "sorted_wrt (\<lambda>i j. ?cmp i j \<le> 0) (sortBy ?cmp [0..<length (typeMap s)])"
    by (rule sorted_sortBy) (use total trans in blast)+
  then have sorted: "sorted_wrt (\<lambda>i j. ?cmp i j \<le> 0) ?types"
    unfolding sortedTypes_def by (rule sorted_wrt_filter_keeps)
  from printTypes_texts[OF dist h[unfolded r1]]
  have all: "list_all2 (\<lambda>i out. out \<noteq> [] \<and> (\<exists>n. fst (printType E opts (typeMap s ! i) n) = Inr out))
               ?types texts" .
  then have all': "list_all2 (\<lambda>i out. \<exists>n. fst (printType E opts (typeMap s ! i) n) = Inr out)
               ?types texts"
    by (rule list_all2_mono) simp
  have ft: "filter (\<lambda>x. x \<noteq> []) texts = texts" by (rule filter_nonempty_texts[OF all])
  have fd: "filter (\<lambda>x. x \<noteq> []) (map (printDirective opts) ?ds) = map (printDirective opts) ?ds"
    by (simp add: filter_map o_def printDirective_nonempty)
  have "filter (\<lambda>x. x \<noteq> [])
           ([printSchemaDefinition s] @ csdlDefinitions E @ [printGraphs serviceList] @
            map (printDirective opts) ?ds @ texts)
        = [printSchemaDefinition s] @ filter (\<lambda>x. x \<noteq> []) (csdlDefinitions E) @
          [printGraphs serviceList] @ map (printDirective opts) ?ds @ texts"
    using ft fd by (simp add: printSchemaDefinition_nonempty printGraphs_nonempty)
  with doc have doc': "doc = joinWith (NL @ NL)
             ([printSchemaDefinition s] @
              filter (\<lambda>x. x \<noteq> []) (csdlDefinitions E) @
              [printGraphs serviceList] @
              map (printDirective opts) ?ds @
              texts) @ NL"
    by simp
  from doc' dist st sorted all' show ?thesis by blast
qed

lemma compareCodeUnits_total: "compareCodeUnits a b \<le> 0 \<or> compareCodeUnits b a \<le> 0"
  by (induction a b rule: compareCodeUnits.induct) auto

lemma compareCodeUnits_trans:
  "compareCodeUnits a b \<le> 0 \<Longrightarrow> compareCodeUnits b c \<le> 0 \<Longrightarrow> compareCodeUnits a c \<le> 0"
proof (induction a b arbitrary: c rule: compareCodeUnits.induct)
  case 1
  then show ?case by simp
next
  case (2 y ys)
  then show ?case by (cases c) auto
next
  case (3 x xs)
  then show ?case by simp
next
  case (4 x xs y ys)
  then show ?case by (cases c) (auto split: if_splits)
qed

lemma directiveSchema_run:
  "printComposedSdl exampleEnv directiveSchema services None 0 =
     (Inr directiveDocument, directiveSchema, 1)"
  by code_simp


theorem printComposedSdl_document_order_witness:
  "printComposedSdl exampleEnv directiveSchema services None 0 =
     (Inr directiveDocument, directiveSchema, 1) \<and>
   (\<exists>types texts.
     directiveDocument = joinWith (NL @ NL)
             ([printSchemaDefinition directiveSchema] @
              filter (\<lambda>x. x \<noteq> []) (csdlDefinitions exampleEnv) @
              [printGraphs services] @
              map (printDirective None)
                (filter (\<lambda>d. \<not> isSpecifiedDirective exampleEnv d \<and> \<not> isFederationDirective exampleEnv d)
                   (directives directiveSchema)) @
              texts) @ NL \<and>
     distinct types \<and>
     set types = {i. i < length (typeMap directiveSchema) \<and>
                     isDefinedType exampleEnv (typeMap directiveSchema ! i)} \<and>
     sorted_wrt (\<lambda>i j. localeCompare exampleEnv (ty_name (typeMap directiveSchema ! i))
                          (ty_name (typeMap directiveSchema ! j)) \<le> 0) types \<and>
     list_all2 (\<lambda>i out. \<exists>n. fst (printType exampleEnv None (typeMap directiveSchema ! i) n) = Inr out)
       types texts)"
proof -
  have cmp: "localeCompare exampleEnv = compareCodeUnits" by (simp add: exampleEnv_def)
  from printComposedSdl_document_order[OF directiveSchema_run]
  show ?thesis
    unfolding cmp using directiveSchema_run compareCodeUnits_total compareCodeUnits_trans
    by (metis (no_types, lifting))
qed

text \<open>
  C6 as stated fails: the directives \<open>stream\<close> and \<open>cached\<close> are printed in the order of the
  schema's directive list, which is not sorted by name.
\<close>

theorem printComposedSdl_document_order_counterexample:
  "map dd_name (filter (\<lambda>d. \<not> isSpecifiedDirective exampleEnv d \<and> \<not> isFederationDirective exampleEnv d)
      (directives directiveSchema)) = [''stream'', ''cached''] \<and>
   compareCodeUnits ''stream'' ''cached'' = 1 \<and>
   printComposedSdl exampleEnv directiveSchema services None 0 =
     (Inr directiveDocument, directiveSchema, 1)"
  by code_simp

subsection \<open>Serializer state between calls\<close>

text \<open>
  C2. The claim asks that two calls on the same inputs return the same string. The counter
  \<open>nextKeyId\<close> is module-level: the first call on \<open>productSchema\<close> finds it at 0 and leaves it
  at 1, and the second call, on the same schema and services, names the key fragment
  \<open>cs__keyFor_Product_1\<close> where the first named it \<open>cs__keyFor_Product_0\<close>.
\<close>

theorem printComposedSdl_second_call_differs:
  "printComposedSdl exampleEnv productSchema services None 0 =
     (Inr (productDocument 0), productSchema, 1) \<and>
   printComposedSdl exampleEnv productSchema services None 1 =
     (Inr (productDocument 1), productSchema, 2) \<and>
   productDocument 0 \<noteq> productDocument 1"
  by code_simp

text \<open>
  C3. The claim asks for one fragment per selection-set text and type. \<open>findOrCreateFragment\<close>
  looks the text up but stores the fragment under its name, so the lookup never succeeds:
  the two fields of \<open>Account\<close> that require \<open>{ id }\<close> get two fragments with the same
  selection set and refer to different names.
\<close>

theorem findOrCreateFragment_emits_duplicates:
  "printFieldSet exampleEnv [Field ''id'' None] = ''{ id }'' \<and>
   printObject exampleEnv None accountType 0 =
     (Inr accountText,
      accountType\<lparr>ty_fragments := Some accountFragments, ty_nextFragmentId := Some 2\<rparr>,
      1)"
  by code_simp

end
